theory Spec2Isabelle
  imports Main "HOL-Library.Sublist"
begin

section \<open>The envd docker client (package docker)\<close>

text \<open>
  A shallow embedding of the methods of \<^verbatim>\<open>generalClient\<close>: \<^verbatim>\<open>WaitUntilRunning\<close> (lines
  113 to 147 of the source), \<^verbatim>\<open>PauseContainer\<close> (175 to 192), \<^verbatim>\<open>ResumeContainer\<close> (194 to
  211), \<^verbatim>\<open>GetContainer\<close> (213 to 215), \<^verbatim>\<open>Destroy\<close> (221 to 243), \<^verbatim>\<open>StartEnvd\<close> (309 to
  449), \<^verbatim>\<open>IsRunning\<close> (462 to 471), and of \<^verbatim>\<open>deviceRequests\<close> (500 to 517).

  The docker daemon, the operating system's port allocator and the Go runtime are not
  part of the program. They are a parameter of every definition: a record of functions
  over an opaque host state. Every call to the host goes through one wrapper that
  advances a logical clock by the time the host took to answer and appends the call
  and its answer to a trace, so that a theorem can say which calls a method made, in
  which order, when, and what the host answered.
\<close>

subsection \<open>Go library functions used by the client\<close>

text \<open>
  \<^verbatim>\<open>strings.Contains(s, substr)\<close>: \<open>substr\<close> occurs in \<open>s\<close> as a block of consecutive
  bytes.
\<close>

fun Contains :: "string \<Rightarrow> string \<Rightarrow> bool" where
  "Contains [] substr = (substr = [])"
| "Contains (c # s) substr = (prefix substr (c # s) \<or> Contains s substr)"

text \<open>
  \<^verbatim>\<open>strings.Split(s, sep)\<close> for a separator of one byte: the pieces of \<open>s\<close> between the
  separators, so a string with \<open>n\<close> separators has \<open>n + 1\<close> pieces (some of them
  possibly empty).
\<close>

fun Split :: "string \<Rightarrow> char \<Rightarrow> string list" where
  "Split [] sep = [[]]"
| "Split (c # s) sep =
     (if c = sep then [] # Split s sep
      else (let r = Split s sep in (c # hd r) # tl r))"

text \<open>\<^verbatim>\<open>strings.Join(elems, sep)\<close>.\<close>

fun JoinStrings :: "string list \<Rightarrow> string \<Rightarrow> string" where
  "JoinStrings [] sep = []"
| "JoinStrings [e] sep = e"
| "JoinStrings (e # es) sep = e @ sep @ JoinStrings es sep"

text \<open>
  \<^verbatim>\<open>strconv.Itoa\<close>: the decimal representation of an integer, with a minus sign for a
  negative one.
\<close>

definition digitChar :: "nat \<Rightarrow> char" where
  "digitChar d = ''0123456789'' ! d"

fun digits :: "nat \<Rightarrow> string" where
  "digits n = (if n < 10 then [digitChar n] else digits (n div 10) @ [digitChar (n mod 10)])"

declare digits.simps [simp del]

definition Itoa :: "int \<Rightarrow> string" where
  "Itoa i = (if i < 0 then CHR ''-'' # digits (nat (- i)) else digits (nat i))"

text \<open>
  \<^verbatim>\<open>filepath.Clean\<close> and \<^verbatim>\<open>filepath.Join\<close> on a system whose separator is the slash.
  \<open>cleanElems\<close> is the loop of \<open>Clean\<close> over the elements of the path: an empty element
  (from a doubled or a trailing slash) and \<open>.\<close> are dropped, \<open>..\<close> removes the element
  before it when there is one that is not itself a kept \<open>..\<close>, is dropped at the root
  of a rooted path and is kept otherwise. The elements kept so far are held in reverse.
\<close>

fun cleanElems :: "bool \<Rightarrow> string list \<Rightarrow> string list \<Rightarrow> string list" where
  "cleanElems rooted out [] = rev out"
| "cleanElems rooted out (e # es) =
     (if e = [] \<or> e = ''.'' then cleanElems rooted out es
      else if e = ''..'' then
        (case out of
           [] \<Rightarrow> if rooted then cleanElems rooted out es else cleanElems rooted [e] es
         | lastElem # below \<Rightarrow>
             if lastElem = ''..'' then cleanElems rooted (e # out) es
             else cleanElems rooted below es)
      else cleanElems rooted (e # out) es)"

definition Clean :: "string \<Rightarrow> string" where
  "Clean path =
     (if path = [] then ''.''
      else (let rooted = (hd path = CHR ''/'');
                out = JoinStrings (cleanElems rooted [] (Split path CHR ''/'')) ''/'';
                r = (if rooted then CHR ''/'' # out else out)
            in if r = [] then ''.'' else r))"

text \<open>
  \<^verbatim>\<open>filepath.Join(elem...)\<close>: the elements from the first non-empty one on, joined by
  slashes and cleaned; the empty string when every element is empty.
\<close>

fun Join :: "string list \<Rightarrow> string" where
  "Join [] = []"
| "Join (e # es) = (if e = [] then Join es else Clean (JoinStrings (e # es) ''/''))"

subsection \<open>Errors\<close>

text \<open>
  An error is a leaf with a message (\<^verbatim>\<open>errors.New\<close>, \<^verbatim>\<open>errors.Newf\<close>, \<^verbatim>\<open>errors.Errorf\<close>,
  and the errors of the docker client) or another error wrapped with a message
  (\<^verbatim>\<open>errors.Wrap\<close>). \<open>UnwrapAll\<close> is the innermost cause and \<open>Error\<close> the message.
  A Go \<^verbatim>\<open>error\<close> that may be nil is an \<open>error option\<close>.
\<close>

datatype error = New string | Wrap error string

fun UnwrapAll :: "error \<Rightarrow> error" where
  "UnwrapAll (New msg) = New msg"
| "UnwrapAll (Wrap err msg) = UnwrapAll err"

fun Error :: "error \<Rightarrow> string" where
  "Error (New msg) = msg"
| "Error (Wrap err msg) = msg @ '': '' @ Error err"

text \<open>
  A method that can dereference a nil pointer either returns or panics.
\<close>

datatype 'a outcome = Return 'a | Panic

subsection \<open>The container specification and the host's records\<close>

text \<open>
  Only the fields the client sets or reads are kept; every other field of the docker
  types has its zero value throughout. A Go pointer that may be nil is an option.
  \<^verbatim>\<open>types.ContainerJSON\<close> embeds \<^verbatim>\<open>*ContainerJSONBase\<close>: the fields \<^verbatim>\<open>Name\<close> and \<^verbatim>\<open>State\<close>
  are read through that pointer.
\<close>

definition TypeBind :: string where
  "TypeBind = ''bind''"

record Mount =
  Type :: string
  Source :: string
  Target :: string

record PortBinding =
  HostIP :: string
  HostPort :: string

record DeviceRequest =
  Driver :: string
  Count :: int
  Capabilities :: "string list list"

record Config =
  Image :: string
  User :: string
  ExposedPorts :: "string set"
  WorkingDir :: string
  Labels :: "string \<rightharpoonup> string"

record HostConfig =
  PortBindings :: "string \<rightharpoonup> PortBinding list"
  Mounts :: "Mount list"
  DeviceRequests :: "DeviceRequest list"

record ContainerState =
  Running :: bool

record ContainerJSONBase =
  Name :: string
  State :: "ContainerState option"

record NetworkSettings =
  IPAddress :: string

record ContainerJSON =
  ContainerJSONBase :: "ContainerJSONBase option"
  NetworkSettings :: "NetworkSettings option"

record ContainerCreateCreatedBody =
  ID :: string
  Warnings :: "string list"

record ('j, 'r) Graph =
  JupyterConfig :: "'j option"
  RStudioServerConfig :: "'r option"

subsection \<open>The host\<close>

text \<open>
  A \<^verbatim>\<open>context.Context\<close> is the instant at which its \<^verbatim>\<open>Done\<close> channel is closed, if
  it ever is. Instants and durations are integers (nanoseconds, as \<^verbatim>\<open>time.Duration\<close>
  counts them; they are not bounded here). The context made by \<^verbatim>\<open>context.WithTimeout\<close>
  at the instant \<open>t\<close> is done at the parent's instant or at \<open>t + timeout\<close>, whichever comes
  first: \<open>WithTimeout\<close> gives that instant.
\<close>

type_synonym Context = "int option"

definition WithTimeout :: "Context \<Rightarrow> int \<Rightarrow> int \<Rightarrow> int" where
  "WithTimeout parent timeout t =
     (case parent of None \<Rightarrow> t + timeout | Some d \<Rightarrow> min d (t + timeout))"

text \<open>
  An event is one call to the host with its arguments and the host's answer.
\<close>

datatype event =
    EvKill Context string string "error option"
  | EvRemove Context string "error option"
  | EvPause Context string "error option"
  | EvUnpause Context string "error option"
  | EvInspect Context string ContainerJSON "error option"
  | EvCreate Context Config HostConfig string ContainerCreateCreatedBody "error option"
  | EvStart Context string "error option"
  | EvGetFreePort int "error option"

text \<open>
  A call to the host takes the instant of the call and the host's state and gives the
  answer, the time the host took and the host's new state. The host is given the
  context, so it may give up at the deadline, but nothing forces it to.
\<close>

type_synonym ('h, 'a) hostcall = "int \<Rightarrow> 'h \<Rightarrow> 'a \<times> nat \<times> 'h"

record 'h host =
  hContainerKill :: "Context \<Rightarrow> string \<Rightarrow> string \<Rightarrow> ('h, error option) hostcall"
  hContainerRemove :: "Context \<Rightarrow> string \<Rightarrow> ('h, error option) hostcall"
  hContainerPause :: "Context \<Rightarrow> string \<Rightarrow> ('h, error option) hostcall"
  hContainerUnpause :: "Context \<Rightarrow> string \<Rightarrow> ('h, error option) hostcall"
  hContainerInspect :: "Context \<Rightarrow> string \<Rightarrow> ('h, ContainerJSON \<times> error option) hostcall"
  hContainerCreate :: "Context \<Rightarrow> Config \<Rightarrow> HostConfig \<Rightarrow> string \<Rightarrow>
    ('h, ContainerCreateCreatedBody \<times> error option) hostcall"
  hContainerStart :: "Context \<Rightarrow> string \<Rightarrow> ('h, error option) hostcall"
  hGetFreePort :: "('h, int \<times> error option) hostcall"
  IsErrNotFound :: "error \<Rightarrow> bool"
  selectTimer :: "int \<Rightarrow> bool"
  durationString :: "int \<Rightarrow> string"

text \<open>
  \<open>hGetFreePort\<close> is \<^verbatim>\<open>netutil.GetFreePort\<close>, which is not among the sources: it asks
  the operating system for a port that is free at that moment. \<open>IsErrNotFound\<close> is
  \<^verbatim>\<open>client.IsErrNotFound\<close> of the docker client; \<open>selectTimer t\<close> is the choice of the
  Go runtime when both channels of a \<^verbatim>\<open>select\<close> are ready at the instant \<open>t\<close> (true:
  the timer's case runs); \<open>durationString\<close> is \<^verbatim>\<open>time.Duration.String\<close>.
\<close>

text \<open>
  The world of the client: the host's state, the clock, and the trace of the calls made
  so far, each with the instant it was issued at and the instant it was answered at.
\<close>

record 'h world =
  hst :: 'h
  now :: int
  trace :: "(int \<times> int \<times> event) list"

definition invoke :: "('h, 'a) hostcall \<Rightarrow> ('a \<Rightarrow> event) \<Rightarrow> 'h world \<Rightarrow> 'a \<times> 'h world" where
  "invoke f ev w =
     (case f (now w) (hst w) of
        (a, d, s) \<Rightarrow>
          (a, \<lparr>hst = s, now = now w + int d,
               trace = trace w @ [(now w, now w + int d, ev a)]\<rparr>))"

definition ContainerKill :: "'h host \<Rightarrow> Context \<Rightarrow> string \<Rightarrow> string \<Rightarrow> 'h world \<Rightarrow> error option \<times> 'h world" where
  "ContainerKill c ctx name signal = invoke (hContainerKill c ctx name signal) (EvKill ctx name signal)"

definition ContainerRemove :: "'h host \<Rightarrow> Context \<Rightarrow> string \<Rightarrow> 'h world \<Rightarrow> error option \<times> 'h world" where
  "ContainerRemove c ctx name = invoke (hContainerRemove c ctx name) (EvRemove ctx name)"

definition ContainerPause :: "'h host \<Rightarrow> Context \<Rightarrow> string \<Rightarrow> 'h world \<Rightarrow> error option \<times> 'h world" where
  "ContainerPause c ctx name = invoke (hContainerPause c ctx name) (EvPause ctx name)"

definition ContainerUnpause :: "'h host \<Rightarrow> Context \<Rightarrow> string \<Rightarrow> 'h world \<Rightarrow> error option \<times> 'h world" where
  "ContainerUnpause c ctx name = invoke (hContainerUnpause c ctx name) (EvUnpause ctx name)"

definition ContainerInspect :: "'h host \<Rightarrow> Context \<Rightarrow> string \<Rightarrow> 'h world \<Rightarrow>
    (ContainerJSON \<times> error option) \<times> 'h world" where
  "ContainerInspect c ctx name =
     invoke (hContainerInspect c ctx name) (\<lambda>(container, err). EvInspect ctx name container err)"

definition ContainerCreate :: "'h host \<Rightarrow> Context \<Rightarrow> Config \<Rightarrow> HostConfig \<Rightarrow> string \<Rightarrow> 'h world \<Rightarrow>
    (ContainerCreateCreatedBody \<times> error option) \<times> 'h world" where
  "ContainerCreate c ctx config hostConfig name =
     invoke (hContainerCreate c ctx config hostConfig name)
       (\<lambda>(resp, err). EvCreate ctx config hostConfig name resp err)"

definition ContainerStart :: "'h host \<Rightarrow> Context \<Rightarrow> string \<Rightarrow> 'h world \<Rightarrow> error option \<times> 'h world" where
  "ContainerStart c ctx name = invoke (hContainerStart c ctx name) (EvStart ctx name)"

definition GetFreePort :: "'h host \<Rightarrow> 'h world \<Rightarrow> (int \<times> error option) \<times> 'h world" where
  "GetFreePort c = invoke (hGetFreePort c) (\<lambda>(port, err). EvGetFreePort port err)"

subsection \<open>Destroy, PauseContainer, ResumeContainer\<close>

definition PauseContainer :: "'h host \<Rightarrow> Context \<Rightarrow> string \<Rightarrow> 'h world \<Rightarrow>
    (string \<times> error option) \<times> 'h world" where
  "PauseContainer c ctx name w =
     (case ContainerPause c ctx name w of
        (None, w1) \<Rightarrow> ((name, None), w1)
      | (Some err, w1) \<Rightarrow>
          (let errCause = Error (UnwrapAll err) in
           if Contains errCause ''is already paused'' then (('''', None), w1)
           else if Contains errCause ''No such container'' then
             (('''', Some (New ''container not found'')), w1)
           else (('''', Some (Wrap err ''failed to pause container'')), w1)))"

definition ResumeContainer :: "'h host \<Rightarrow> Context \<Rightarrow> string \<Rightarrow> 'h world \<Rightarrow>
    (string \<times> error option) \<times> 'h world" where
  "ResumeContainer c ctx name w =
     (case ContainerUnpause c ctx name w of
        (None, w1) \<Rightarrow> ((name, None), w1)
      | (Some err, w1) \<Rightarrow>
          (let errCause = Error (UnwrapAll err) in
           if Contains errCause ''is not paused'' then (('''', None), w1)
           else if Contains errCause ''No such container'' then
             (('''', Some (New ''container not found'')), w1)
           else (('''', Some (Wrap err ''failed to resume container'')), w1)))"

text \<open>
  \<open>Destroy\<close>: the second part of the method, from the call of \<^verbatim>\<open>ContainerRemove\<close> on,
  is \<open>removeContainer\<close>; the \<^verbatim>\<open>switch\<close> on the cause of a failed kill either falls
  through to it or returns.
\<close>

definition removeContainer :: "'h host \<Rightarrow> Context \<Rightarrow> string \<Rightarrow> 'h world \<Rightarrow>
    (string \<times> error option) \<times> 'h world" where
  "removeContainer c ctx name w =
     (case ContainerRemove c ctx name w of
        (Some err, w1) \<Rightarrow> (('''', Some (Wrap err ''failed to remove the container'')), w1)
      | (None, w1) \<Rightarrow> ((name, None), w1))"

definition Destroy :: "'h host \<Rightarrow> Context \<Rightarrow> string \<Rightarrow> 'h world \<Rightarrow>
    (string \<times> error option) \<times> 'h world" where
  "Destroy c ctx name w =
     (case ContainerKill c ctx name ''KILL'' w of
        (Some err, w1) \<Rightarrow>
          (let errCause = Error (UnwrapAll err) in
           if Contains errCause ''is not running'' then removeContainer c ctx name w1
           else if Contains errCause ''No such container'' then (('''', None), w1)
           else (('''', Some (Wrap err ''failed to kill the container'')), w1))
      | (None, w1) \<Rightarrow> removeContainer c ctx name w1)"

subsection \<open>GetContainer, IsRunning, WaitUntilRunning\<close>

definition interval :: int where
  "interval = 1000000000"

definition GetContainer :: "'h host \<Rightarrow> Context \<Rightarrow> string \<Rightarrow> 'h world \<Rightarrow>
    (ContainerJSON \<times> error option) \<times> 'h world" where
  "GetContainer c ctx cname w = ContainerInspect c ctx cname w"

text \<open>
  \<open>IsRunning\<close> inspects the container; \<open>isRunningOf\<close> is what it makes of the answer. It
  reads \<^verbatim>\<open>container.State.Running\<close> when the inspection succeeded: through the embedded
  pointer and through \<^verbatim>\<open>State\<close>, and a nil one of the two panics.
\<close>

definition isRunningOf :: "'h host \<Rightarrow> ContainerJSON \<times> error option \<Rightarrow> (bool \<times> error option) outcome" where
  "isRunningOf c answer =
     (case answer of
        (container, Some err) \<Rightarrow>
          if IsErrNotFound c err then Return (False, None) else Return (False, Some err)
      | (container, None) \<Rightarrow>
          (case ContainerJSONBase container of
             None \<Rightarrow> Panic
           | Some base \<Rightarrow>
               (case State base of
                  None \<Rightarrow> Panic
                | Some st \<Rightarrow> Return (Running st, None))))"

definition IsRunning :: "'h host \<Rightarrow> Context \<Rightarrow> string \<Rightarrow> 'h world \<Rightarrow>
    (bool \<times> error option) outcome \<times> 'h world" where
  "IsRunning c ctx cname w =
     (case GetContainer c ctx cname w of (answer, w1) \<Rightarrow> (isRunningOf c answer, w1))"

text \<open>
  The \<^verbatim>\<open>select\<close> of \<open>WaitUntilRunning\<close>. Each turn of the loop makes a new timer, due one
  interval after the turn starts; the context \<open>ctxTimeout\<close> is done at the instant
  \<open>deadline\<close>, which may have passed already. The goroutine sleeps until the earlier of
  the two and runs that case; when both are due at the same instant the runtime chooses.
  The result is the case that runs (true: the timer's) and the instant it runs at.
\<close>

definition selectCase :: "'h host \<Rightarrow> int \<Rightarrow> int \<Rightarrow> bool \<times> int" where
  "selectCase c deadline t =
     (let timer = t + interval; done = max deadline t in
      if timer < done then (True, timer)
      else if done < timer then (False, done)
      else (selectTimer c timer, timer))"

text \<open>\<^verbatim>\<open>errors.Errorf("timeout %s: container did not start", timeout)\<close>\<close>

definition timeoutError :: "'h host \<Rightarrow> int \<Rightarrow> error" where
  "timeoutError c timeout =
     New (''timeout '' @ durationString c timeout @ '': container did not start'')"

text \<open>
  The case \<^verbatim>\<open>ctxTimeout.Done()\<close>: the container is inspected once more, with the
  caller's context; a failure is logged only. Then \<^verbatim>\<open>container.State\<close> is read
  through the embedded pointer, which is nil in the zero \<^verbatim>\<open>ContainerJSON\<close> that the
  docker client returns with an error. The failure of \<^verbatim>\<open>json.Marshal\<close> is logged only.
\<close>

definition timedOut :: "'h host \<Rightarrow> Context \<Rightarrow> string \<Rightarrow> int \<Rightarrow> 'h world \<Rightarrow>
    error option outcome \<times> 'h world" where
  "timedOut c ctx name timeout w =
     (case GetContainer c ctx name w of
        ((container, err), w1) \<Rightarrow>
          (case ContainerJSONBase container of
             None \<Rightarrow> (Panic, w1)
           | Some base \<Rightarrow> (Return (Some (timeoutError c timeout)), w1)))"

lemma invoke_now: "invoke f ev w = (a, w1) \<Longrightarrow> now w \<le> now w1"
  by (auto simp: invoke_def split: prod.splits)

lemma IsRunning_now: "IsRunning c ctx cname w = (r, w1) \<Longrightarrow> now w \<le> now w1"
  by (auto simp: IsRunning_def GetContainer_def ContainerInspect_def
      split: prod.splits dest: invoke_now)

function waitLoop :: "'h host \<Rightarrow> Context \<Rightarrow> int \<Rightarrow> string \<Rightarrow> int \<Rightarrow> 'h world \<Rightarrow>
    error option outcome \<times> 'h world" where
  "waitLoop c ctx deadline name timeout w =
     (case selectCase c deadline (now w) of
        (True, t) \<Rightarrow>
          (case IsRunning c (Some deadline) name (w\<lparr>now := t\<rparr>) of
             (Panic, w1) \<Rightarrow> (Panic, w1)
           | (Return (isRunning, Some err), w1) \<Rightarrow>
               (Return (Some (Wrap err ''failed to check if container is running'')), w1)
           | (Return (isRunning, None), w1) \<Rightarrow>
               if isRunning then (Return None, w1)
               else waitLoop c ctx deadline name timeout w1)
      | (False, t) \<Rightarrow> timedOut c ctx name timeout (w\<lparr>now := t\<rparr>))"
  by pat_completeness auto
termination
proof (relation "measure (\<lambda>(c, ctx, deadline, name, timeout, w). nat (deadline - now w))")
  show "wf (measure (\<lambda>(c, ctx, deadline, name, timeout, w). nat (deadline - now w)))"
    by simp
next
  fix c :: "'h host" and ctx :: Context and deadline :: int and name :: string
    and timeout :: int and w w1 :: "'h world" and x :: bool and t :: int
    and r :: "(bool \<times> error option) outcome"
  assume sel: "(x, t) = selectCase c deadline (now w)" and x: "x = True"
    and run: "(r, w1) = IsRunning c (Some deadline) name (w\<lparr>now := t\<rparr>)"
  from sel x have t: "t = now w + interval" "now w + interval \<le> deadline"
    by (auto simp: selectCase_def Let_def interval_def max_def split: if_splits)
  from run have "t \<le> now w1"
    using IsRunning_now [of c "Some deadline" name "w\<lparr>now := t\<rparr>" r w1] by simp
  with t have "nat (deadline - now w1) < nat (deadline - now w)"
    by (simp add: interval_def)
  then show "((c, ctx, deadline, name, timeout, w1), (c, ctx, deadline, name, timeout, w))
      \<in> measure (\<lambda>(c, ctx, deadline, name, timeout, w). nat (deadline - now w))"
    by simp
qed

declare waitLoop.simps [simp del]

definition WaitUntilRunning :: "'h host \<Rightarrow> Context \<Rightarrow> string \<Rightarrow> int \<Rightarrow> 'h world \<Rightarrow>
    error option outcome \<times> 'h world" where
  "WaitUntilRunning c ctx name timeout w =
     waitLoop c ctx (WithTimeout ctx timeout (now w)) name timeout w"

subsection \<open>StartEnvd\<close>

text \<open>
  What \<open>StartEnvd\<close> uses of the packages \<^verbatim>\<open>envdconfig\<close>, \<^verbatim>\<open>fileutil\<close> and of the function
  \<^verbatim>\<open>labels\<close> of this package is a parameter.
\<close>

record ('j, 'r) pkgs =
  SSHPortInContainer :: int
  JupyterPortInContainer :: int
  RStudioServerPortInContainer :: int
  fileutilBase :: "string \<Rightarrow> string"
  labels :: "string \<Rightarrow> ('j, 'r) Graph \<Rightarrow> int \<Rightarrow> int \<Rightarrow> int \<Rightarrow> (string \<rightharpoonup> string)"

definition localhost :: string where
  "localhost = ''127.0.0.1''"

definition deviceRequests :: "int \<Rightarrow> DeviceRequest list" where
  "deviceRequests count =
     [\<lparr>Driver = ''nvidia'', Count = count,
       Capabilities = [[''gpu''], [''nvidia''], [''compute''], [''compat32''],
         [''graphics''], [''utility''], [''video''], [''display'']]\<rparr>]"

text \<open>
  The loop over \<^verbatim>\<open>mountOptionsStr\<close>: the mounts of the entries, in order, or the error of
  the first entry that does not split into two pieces.
\<close>

fun mountOptions :: "string list \<Rightarrow> error + Mount list" where
  "mountOptions [] = Inr []"
| "mountOptions (option # rest) =
     (let mStr = Split option CHR '':'' in
      if length mStr \<noteq> 2 then Inl (New (''Invalid mount options '' @ option))
      else (case mountOptions rest of
              Inl err \<Rightarrow> Inl err
            | Inr ms \<Rightarrow> Inr (\<lparr>Type = TypeBind, Source = mStr ! 0, Target = mStr ! 1\<rparr> # ms)))"

text \<open>\<^verbatim>\<open>nat.Port(fmt.Sprintf("%d/tcp", port))\<close>\<close>

definition natPort :: "int \<Rightarrow> string" where
  "natPort port = Itoa port @ ''/tcp''"

text \<open>
  \<^verbatim>\<open>hostConfig.PortBindings[natPort] = []nat.PortBinding{{HostIP: localhost, HostPort: strconv.Itoa(port)}}\<close>
\<close>

definition bindPort :: "HostConfig \<Rightarrow> string \<Rightarrow> int \<Rightarrow> HostConfig" where
  "bindPort hostConfig key portInHost =
     hostConfig\<lparr>PortBindings := (PortBindings hostConfig)
       (key \<mapsto> [\<lparr>HostIP = localhost, HostPort = Itoa portInHost\<rparr>])\<rparr>"

text \<open>
  The blocks for jupyter and for the RStudio server are the same code with another
  constant: when the service is declared, a free port is asked for, bound to the
  service's port in the container, and that port is exposed. The port in the host stays
  0 when the service is not declared.
\<close>

definition servicePort :: "'h host \<Rightarrow> bool \<Rightarrow> int \<Rightarrow> Config \<Rightarrow> HostConfig \<Rightarrow> 'h world \<Rightarrow>
    (error + Config \<times> HostConfig \<times> int) \<times> 'h world" where
  "servicePort c declared portInContainer config hostConfig w =
     (if declared then
        (case GetFreePort c w of
           ((portInHost, Some err), w1) \<Rightarrow> (Inl (Wrap err ''failed to get a free port''), w1)
         | ((portInHost, None), w1) \<Rightarrow>
             (let key = natPort portInContainer in
              (Inr (config\<lparr>ExposedPorts := insert key (ExposedPorts config)\<rparr>,
                    bindPort hostConfig key portInHost, portInHost), w1)))
      else (Inr (config, hostConfig, 0), w))"

text \<open>
  The first part of \<open>StartEnvd\<close>, up to the call of \<^verbatim>\<open>ContainerCreate\<close>: the
  specification of the container, or the error that ends the method.
\<close>

definition buildSpec :: "'h host \<Rightarrow> ('j, 'r) pkgs \<Rightarrow> string \<Rightarrow> string \<Rightarrow> string \<Rightarrow> bool \<Rightarrow> int \<Rightarrow> int \<Rightarrow>
    ('j, 'r) Graph \<Rightarrow> string list \<Rightarrow> 'h world \<Rightarrow> (error + Config \<times> HostConfig) \<times> 'h world" where
  "buildSpec c p tag name buildContext gpuEnabled numGPUs sshPortInHost g mountOptionsStr w =
     (let config = \<lparr>Image = tag, User = ''envd'', ExposedPorts = {}, WorkingDir = [],
                     Labels = Map.empty\<rparr>;
          base = Join [''/home/envd'', fileutilBase p buildContext];
          config = config\<lparr>WorkingDir := base\<rparr>
      in case mountOptions mountOptionsStr of
           Inl err \<Rightarrow> (Inl err, w)
         | Inr ms \<Rightarrow>
             (let mountOption = ms @ [\<lparr>Type = TypeBind, Source = buildContext, Target = base\<rparr>];
                  hostConfig = \<lparr>PortBindings = Map.empty, Mounts = mountOption,
                                 DeviceRequests = []\<rparr>;
                  hostConfig = bindPort hostConfig (natPort (SSHPortInContainer p)) sshPortInHost
              in case servicePort c (JupyterConfig g \<noteq> None) (JupyterPortInContainer p)
                        config hostConfig w of
                   (Inl err, w1) \<Rightarrow> (Inl err, w1)
                 | (Inr (config, hostConfig, jupyterPortInHost), w1) \<Rightarrow>
                     (case servicePort c (RStudioServerConfig g \<noteq> None)
                             (RStudioServerPortInContainer p) config hostConfig w1 of
                        (Inl err, w2) \<Rightarrow> (Inl err, w2)
                      | (Inr (config, hostConfig, rStudioPortInHost), w2) \<Rightarrow>
                          (let hostConfig =
                                 (if gpuEnabled
                                  then hostConfig\<lparr>DeviceRequests := deviceRequests numGPUs\<rparr>
                                  else hostConfig);
                               config = config\<lparr>Labels := labels p name g sshPortInHost
                                 jupyterPortInHost rStudioPortInHost\<rparr>
                           in (Inr (config, hostConfig), w2)))))"

text \<open>
  The second part, from \<^verbatim>\<open>ContainerCreate\<close> on. \<^verbatim>\<open>container.Name\<close> is read through the
  embedded pointer and \<^verbatim>\<open>container.NetworkSettings.IPAddress\<close> through
  \<^verbatim>\<open>NetworkSettings\<close>.
\<close>

definition runContainer :: "'h host \<Rightarrow> Context \<Rightarrow> string \<Rightarrow> int \<Rightarrow> Config \<Rightarrow> HostConfig \<Rightarrow> 'h world \<Rightarrow>
    (string \<times> string \<times> error option) outcome \<times> 'h world" where
  "runContainer c ctx name timeout config hostConfig w =
     (case ContainerCreate c ctx config hostConfig name w of
        ((resp, Some err), w1) \<Rightarrow>
          (Return ([], [], Some (Wrap err ''failed to create the container'')), w1)
      | ((resp, None), w1) \<Rightarrow>
          (case ContainerStart c ctx (ID resp) w1 of
             (Some err, w2) \<Rightarrow>
               if Contains (Error (UnwrapAll err)) ''port is already allocated''
               then (Return ([], [],
                       Some (New ''jupyter port is already allocated in the host'')), w2)
               else (Return ([], [], Some (Wrap err ''failed to run the container'')), w2)
           | (None, w2) \<Rightarrow>
               (case GetContainer c ctx (ID resp) w2 of
                  ((container, Some err), w3) \<Rightarrow>
                    (Return ([], [], Some (Wrap err ''failed to inspect the container'')), w3)
                | ((container, None), w3) \<Rightarrow>
                    (case ContainerJSONBase container of
                       None \<Rightarrow> (Panic, w3)
                     | Some base \<Rightarrow>
                         (case WaitUntilRunning c ctx (Name base) timeout w3 of
                            (Panic, w4) \<Rightarrow> (Panic, w4)
                          | (Return (Some err), w4) \<Rightarrow>
                              (Return ([], [], Some (Wrap err
                                 ''failed to wait until the container is running'')), w4)
                          | (Return None, w4) \<Rightarrow>
                              (case NetworkSettings container of
                                 None \<Rightarrow> (Panic, w4)
                               | Some ns \<Rightarrow>
                                   (Return (Name base, IPAddress ns, None), w4)))))))"

definition StartEnvd :: "'h host \<Rightarrow> ('j, 'r) pkgs \<Rightarrow> Context \<Rightarrow> string \<Rightarrow> string \<Rightarrow> string \<Rightarrow> bool \<Rightarrow> int \<Rightarrow>
    int \<Rightarrow> ('j, 'r) Graph \<Rightarrow> int \<Rightarrow> string list \<Rightarrow> 'h world \<Rightarrow>
    (string \<times> string \<times> error option) outcome \<times> 'h world" where
  "StartEnvd c p ctx tag name buildContext gpuEnabled numGPUs sshPortInHost g timeout
     mountOptionsStr w =
     (case buildSpec c p tag name buildContext gpuEnabled numGPUs sshPortInHost g
             mountOptionsStr w of
        (Inl err, w1) \<Rightarrow> (Return ([], [], Some err), w1)
      | (Inr (config, hostConfig), w1) \<Rightarrow>
          runContainer c ctx name timeout config hostConfig w1)"

subsection \<open>Reading the trace\<close>

text \<open>
  The calls a method made: the entries of the trace of the world it ends in that the
  world it started in does not have.
\<close>

definition newEntries :: "'h world \<Rightarrow> 'h world \<Rightarrow> (int \<times> int \<times> event) list" where
  "newEntries w w' = drop (length (trace w)) (trace w')"

definition newEvents :: "'h world \<Rightarrow> 'h world \<Rightarrow> event list" where
  "newEvents w w' = map (\<lambda>(issued, answered, e). e) (newEntries w w')"

text \<open>The specifications handed to \<^verbatim>\<open>ContainerCreate\<close>, and the ports the allocator gave.\<close>

fun createdOf :: "event list \<Rightarrow> (Config \<times> HostConfig) list" where
  "createdOf [] = []"
| "createdOf (EvCreate ctx config hostConfig name resp err # es) =
     (config, hostConfig) # createdOf es"
| "createdOf (e # es) = createdOf es"

fun allocatedOf :: "event list \<Rightarrow> int list" where
  "allocatedOf [] = []"
| "allocatedOf (EvGetFreePort port None # es) = port # allocatedOf es"
| "allocatedOf (e # es) = allocatedOf es"

definition created :: "'h world \<Rightarrow> 'h world \<Rightarrow> (Config \<times> HostConfig) list" where
  "created w w' = createdOf (newEvents w w')"

definition allocated :: "'h world \<Rightarrow> 'h world \<Rightarrow> int list" where
  "allocated w w' = allocatedOf (newEvents w w')"

subsection \<open>A host that answers from a script\<close>

text \<open>
  For the examples: a host whose state is the list of the answers it will give, each
  with the time it takes. A call takes the next answer when it is of the kind the call
  needs; otherwise the host is unreachable.
\<close>

datatype answer =
    Answer "error option"
  | Inspected ContainerJSON "error option"
  | Created ContainerCreateCreatedBody "error option"
  | Port int "error option"

type_synonym script = "(answer \<times> nat) list"

definition unreachable :: error where
  "unreachable = New ''Cannot connect to the Docker daemon''"

fun answerCall :: "(script, error option) hostcall" where
  "answerCall t ((Answer err, d) # rest) = (err, d, rest)"
| "answerCall t s = (Some unreachable, 0, s)"

fun answerInspect :: "(script, ContainerJSON \<times> error option) hostcall" where
  "answerInspect t ((Inspected container err, d) # rest) = ((container, err), d, rest)"
| "answerInspect t s =
     ((\<lparr>ContainerJSONBase = None, NetworkSettings = None\<rparr>, Some unreachable), 0, s)"

fun answerCreate :: "(script, ContainerCreateCreatedBody \<times> error option) hostcall" where
  "answerCreate t ((Created resp err, d) # rest) = ((resp, err), d, rest)"
| "answerCreate t s = ((\<lparr>ID = [], Warnings = []\<rparr>, Some unreachable), 0, s)"

fun answerPort :: "(script, int \<times> error option) hostcall" where
  "answerPort t ((Port port err, d) # rest) = ((port, err), d, rest)"
| "answerPort t s = ((0, Some unreachable), 0, s)"

definition scripted :: "script host" where
  "scripted =
     \<lparr>hContainerKill = (\<lambda>ctx name signal. answerCall),
      hContainerRemove = (\<lambda>ctx name. answerCall),
      hContainerPause = (\<lambda>ctx name. answerCall),
      hContainerUnpause = (\<lambda>ctx name. answerCall),
      hContainerInspect = (\<lambda>ctx name. answerInspect),
      hContainerCreate = (\<lambda>ctx config hostConfig name. answerCreate),
      hContainerStart = (\<lambda>ctx name. answerCall),
      hGetFreePort = answerPort,
      IsErrNotFound = (\<lambda>err. Contains (Error (UnwrapAll err)) ''No such container''),
      selectTimer = (\<lambda>t. True),
      durationString = (\<lambda>d. Itoa d @ ''ns'')\<rparr>"

definition start :: "script \<Rightarrow> script world" where
  "start s = \<lparr>hst = s, now = 0, trace = []\<rparr>"

text \<open>Examples of what the docker daemon answers.\<close>

definition noSuchContainer :: error where
  "noSuchContainer = New ''Cannot kill container: c1: No such container: c1''"

definition notRunning :: error where
  "notRunning = New ''Cannot kill container: c1: Container c1 is not running''"

definition busy :: error where
  "busy = New ''device or resource busy''"

definition alreadyPaused :: error where
  "alreadyPaused = New ''Container c1 is already paused''"

definition notPaused :: error where
  "notPaused = New ''Container c1 is not paused''"

definition noSuch :: error where
  "noSuch = New ''No such container: c1''"

subsection \<open>The run of a wait, read from the trace\<close>

text \<open>
  For the statements about \<open>WaitUntilRunning\<close>. \<open>notRunningPolls c deadline name t0 es\<close>:
  the entries \<open>es\<close> are queries of the running state of \<open>name\<close>, made with the context
  that is done at \<open>deadline\<close>, each issued exactly one interval after the one before it
  was answered (the first: after \<open>t0\<close>) and not after the deadline, and each answered
  that the container is not running. \<open>lastAnswered t0 es\<close> is the instant the last of
  them was answered at, \<open>t0\<close> when there is none.
\<close>

type_synonym entry = "int \<times> int \<times> event"

definition lastAnswered :: "int \<Rightarrow> entry list \<Rightarrow> int" where
  "lastAnswered t0 es = (if es = [] then t0 else fst (snd (last es)))"

fun notRunningPolls :: "'h host \<Rightarrow> int \<Rightarrow> string \<Rightarrow> int \<Rightarrow> entry list \<Rightarrow> bool" where
  "notRunningPolls c deadline name t0 [] = True"
| "notRunningPolls c deadline name t0 ((issued, answered, e) # es) =
     (issued = t0 + interval \<and> issued \<le> deadline \<and> issued \<le> answered \<and>
      (case e of
         EvInspect cx nm container err \<Rightarrow>
           cx = Some deadline \<and> nm = name \<and>
           isRunningOf c (container, err) = Return (False, None)
       | _ \<Rightarrow> False) \<and>
      notRunningPolls c deadline name answered es)"

text \<open>What the host answers to the inspection of a container that exists.\<close>

definition inspected :: "bool \<Rightarrow> ContainerJSON" where
  "inspected running =
     \<lparr>ContainerJSONBase = Some \<lparr>Name = ''/c1'', State = Some \<lparr>Running = running\<rparr>\<rparr>,
      NetworkSettings = Some \<lparr>IPAddress = ''172.17.0.2''\<rparr>\<rparr>"

text \<open>For the statements about \<open>StartEnvd\<close>: the kinds of events, and the binding of a port of
  the host on the loopback address.\<close>

definition binding :: "int \<Rightarrow> PortBinding list" where
  "binding portInHost = [\<lparr>HostIP = localhost, HostPort = Itoa portInHost\<rparr>]"

fun isInspect :: "event \<Rightarrow> bool" where
  "isInspect (EvInspect cx name container err) = True"
| "isInspect e = False"

fun isGetFreePort :: "event \<Rightarrow> bool" where
  "isGetFreePort (EvGetFreePort port err) = True"
| "isGetFreePort e = False"

fun isCreate :: "event \<Rightarrow> bool" where
  "isCreate (EvCreate ctx config hostConfig name resp err) = True"
| "isCreate e = False"

subsection \<open>Example values of the parameters of \<open>StartEnvd\<close>\<close>

text \<open>
  Modelled from the spec: \<^verbatim>\<open>fileutil.Base\<close>, which is not among the sources. The
  specification calls its result the base name of the build context: the last element
  of the path, as \<^verbatim>\<open>filepath.Base\<close> gives it.
\<close>

fun stripSlashes :: "string \<Rightarrow> string" where
  "stripSlashes path =
     (if path \<noteq> [] \<and> last path = CHR ''/'' then stripSlashes (butlast path) else path)"

declare stripSlashes.simps [simp del]

definition Base :: "string \<Rightarrow> string" where
  "Base path =
     (if path = [] then ''.''
      else (let stripped = stripSlashes path in
            if stripped = [] then ''/'' else last (Split stripped CHR ''/'')))"

text \<open>
  The ports of the services in the container, the base name and the labels, for the
  examples; and a graph that declares no service.
\<close>

definition envd :: "(unit, unit) pkgs" where
  "envd = \<lparr>SSHPortInContainer = 2222, JupyterPortInContainer = 8888,
     RStudioServerPortInContainer = 8787, fileutilBase = Base,
     labels = (\<lambda>name g sshPortInHost jupyterPortInHost rStudioPortInHost.
       [''name'' \<mapsto> name, ''ssh-port'' \<mapsto> Itoa sshPortInHost,
        ''jupyter-port'' \<mapsto> Itoa jupyterPortInHost,
        ''rstudio-port'' \<mapsto> Itoa rStudioPortInHost])\<rparr>"

definition noServices :: "(unit, unit) Graph" where
  "noServices = \<lparr>JupyterConfig = None, RStudioServerConfig = None\<rparr>"

definition portTaken :: error where
  "portTaken = New ''Bind for 127.0.0.1:2222 failed: port is already allocated''"

subsection \<open>Mount options, read from the entries\<close>

text \<open>
  For the statements about mount options: the number of colons of an entry, and the
  mount of an entry with one colon, whose source is the text before the colon and whose
  target is the text after it.
\<close>

definition colons :: "string \<Rightarrow> nat" where
  "colons option = count_list option CHR '':''"

definition mountOf :: "string \<Rightarrow> Mount" where
  "mountOf option =
     \<lparr>Type = ''bind'', Source = takeWhile (\<lambda>ch. ch \<noteq> CHR '':'') option,
      Target = tl (dropWhile (\<lambda>ch. ch \<noteq> CHR '':'') option)\<rparr>"

text \<open>
  The script of a host that creates the container, starts it, and reports it running,
  at once.
\<close>

definition up :: script where
  "up = [(Created \<lparr>ID = ''abc'', Warnings = []\<rparr> None, 0), (Answer None, 0),
     (Inspected (inspected True) None, 0), (Inspected (inspected True) None, 0)]"

subsection \<open>Port bindings, read from the specification\<close>

text \<open>
  For the statements about ports: the port of the host that a port of the container is
  bound to; the number a string of decimal digits stands for; and a graph that declares
  both services.
\<close>

definition hostPortOf :: "HostConfig \<Rightarrow> int \<Rightarrow> string option" where
  "hostPortOf hostConfig portInContainer =
     map_option (\<lambda>bs. HostPort (hd bs)) (PortBindings hostConfig (natPort portInContainer))"

definition digitValue :: "char \<Rightarrow> nat" where
  "digitValue ch = of_char ch - 48"

definition decimalValue :: "string \<Rightarrow> nat" where
  "decimalValue s = foldl (\<lambda>a ch. 10 * a + digitValue ch) 0 s"

definition bothServices :: "(unit, unit) Graph" where
  "bothServices = \<lparr>JupyterConfig = Some (), RStudioServerConfig = Some ()\<rparr>"

section \<open>Properties\<close>

subsection \<open>The trace of a call\<close>

lemma invoke_trace:
  "invoke f ev w = (a, w1) \<Longrightarrow> trace w1 = trace w @ [(now w, now w1, ev a)]"
  by (auto simp: invoke_def split: prod.splits)

lemma newEntries_append: "trace w' = trace w @ es \<Longrightarrow> newEntries w w' = es"
  by (simp add: newEntries_def)

lemma newEvents_append:
  "trace w' = trace w @ es \<Longrightarrow> newEvents w w' = map (\<lambda>(issued, answered, e). e) es"
  by (simp add: newEvents_def newEntries_def)

lemma newEvents_same: "newEvents w w = []"
  by (simp add: newEvents_def newEntries_def)

lemma ContainerKill_trace:
  "ContainerKill c ctx name signal w = (err, w1) \<Longrightarrow>
     trace w1 = trace w @ [(now w, now w1, EvKill ctx name signal err)]"
  unfolding ContainerKill_def by (rule invoke_trace)

lemma ContainerRemove_trace:
  "ContainerRemove c ctx name w = (err, w1) \<Longrightarrow>
     trace w1 = trace w @ [(now w, now w1, EvRemove ctx name err)]"
  unfolding ContainerRemove_def by (rule invoke_trace)

lemma ContainerPause_trace:
  "ContainerPause c ctx name w = (err, w1) \<Longrightarrow>
     trace w1 = trace w @ [(now w, now w1, EvPause ctx name err)]"
  unfolding ContainerPause_def by (rule invoke_trace)

lemma ContainerUnpause_trace:
  "ContainerUnpause c ctx name w = (err, w1) \<Longrightarrow>
     trace w1 = trace w @ [(now w, now w1, EvUnpause ctx name err)]"
  unfolding ContainerUnpause_def by (rule invoke_trace)

lemma ContainerStart_trace:
  "ContainerStart c ctx name w = (err, w1) \<Longrightarrow>
     trace w1 = trace w @ [(now w, now w1, EvStart ctx name err)]"
  unfolding ContainerStart_def by (rule invoke_trace)

lemma ContainerInspect_trace:
  "ContainerInspect c ctx name w = ((container, err), w1) \<Longrightarrow>
     trace w1 = trace w @ [(now w, now w1, EvInspect ctx name container err)]"
  unfolding ContainerInspect_def by (drule invoke_trace) simp

lemma ContainerCreate_trace:
  "ContainerCreate c ctx config hostConfig name w = ((resp, err), w1) \<Longrightarrow>
     trace w1 = trace w @ [(now w, now w1, EvCreate ctx config hostConfig name resp err)]"
  unfolding ContainerCreate_def by (drule invoke_trace) simp

lemma GetFreePort_trace:
  "GetFreePort c w = ((port, err), w1) \<Longrightarrow>
     trace w1 = trace w @ [(now w, now w1, EvGetFreePort port err)]"
  unfolding GetFreePort_def by (drule invoke_trace) simp

subsection \<open>Destroy\<close>

lemma removeContainer_result:
  assumes "ContainerRemove c ctx name w1 = (rerr, w2)"
  shows "removeContainer c ctx name w1 =
    ((case rerr of None \<Rightarrow> (name, None)
      | Some err \<Rightarrow> ([], Some (Wrap err ''failed to remove the container''))), w2)"
  using assms by (simp add: removeContainer_def split: option.splits)

lemma Destroy_result:
  assumes "ContainerKill c ctx name ''KILL'' w = (kerr, w1)"
    and "ContainerRemove c ctx name w1 = (rerr, w2)"
  shows "Destroy c ctx name w =
    (if kerr = None \<or> (\<exists>e. kerr = Some e \<and> Contains (Error (UnwrapAll e)) ''is not running'')
     then ((case rerr of None \<Rightarrow> (name, None)
            | Some err \<Rightarrow> ([], Some (Wrap err ''failed to remove the container''))), w2)
     else if Contains (Error (UnwrapAll (the kerr))) ''No such container''
     then (([], None), w1)
     else (([], Some (Wrap (the kerr) ''failed to kill the container'')), w1))"
  using assms removeContainer_result [OF assms(2)]
  by (cases kerr) (simp_all add: Destroy_def)

lemma Destroy_events:
  assumes "ContainerKill c ctx name ''KILL'' w = (kerr, w1)"
    and "ContainerRemove c ctx name w1 = (rerr, w2)"
  shows "newEvents w w1 = [EvKill ctx name ''KILL'' kerr]"
    and "newEvents w w2 = [EvKill ctx name ''KILL'' kerr, EvRemove ctx name rerr]"
  using ContainerKill_trace [OF assms(1)] ContainerRemove_trace [OF assms(2)]
  by (simp_all add: newEvents_append)

lemma PauseContainer_result:
  assumes "ContainerPause c ctx name w = (perr, w1)"
  shows "PauseContainer c ctx name w =
    (case perr of
       None \<Rightarrow> ((name, None), w1)
     | Some e \<Rightarrow>
         if Contains (Error (UnwrapAll e)) ''is already paused'' then (([], None), w1)
         else if Contains (Error (UnwrapAll e)) ''No such container''
         then (([], Some (New ''container not found'')), w1)
         else (([], Some (Wrap e ''failed to pause container'')), w1))"
  using assms by (simp add: PauseContainer_def split: option.splits)

lemma ResumeContainer_result:
  assumes "ContainerUnpause c ctx name w = (uerr, w1)"
  shows "ResumeContainer c ctx name w =
    (case uerr of
       None \<Rightarrow> ((name, None), w1)
     | Some e \<Rightarrow>
         if Contains (Error (UnwrapAll e)) ''is not paused'' then (([], None), w1)
         else if Contains (Error (UnwrapAll e)) ''No such container''
         then (([], Some (New ''container not found'')), w1)
         else (([], Some (Wrap e ''failed to resume container'')), w1))"
  using assms by (simp add: ResumeContainer_def split: option.splits)

lemmas scripted_simps = ContainerKill_def ContainerRemove_def ContainerPause_def
  ContainerUnpause_def ContainerStart_def ContainerInspect_def ContainerCreate_def
  GetFreePort_def invoke_def scripted_def start_def newEvents_def newEntries_def

lemma triple_collapse: "p = ((fst (fst p), snd (fst p)), snd p)"
  by simp

text \<open>
  C1. \<open>Destroy\<close> is idempotent. Whatever the host answers to the kill (\<open>kerr\<close>) and would
  answer to the removal after it (\<open>rerr\<close>):
  \<^item> the first call \<open>Destroy\<close> makes is the kill, with the signal \<open>KILL\<close>;
  \<^item> when the kill succeeds, or fails with a cause that says the container is not
    running, the container is removed next and that is all: the result is the name and
    no error when the removal succeeds, and the wrapped error of the removal when it
    fails, whatever its cause;
  \<^item> when the kill fails with a cause that says there is no such container (and not that
    it is not running), the kill is the only call, no removal is attempted, and the
    result is success;
  \<^item> when the kill fails with any other cause, the kill is the only call and the result
    is the wrapped error of the kill.
  So \<open>Destroy\<close> of a container the host does not have succeeds.
\<close>

theorem Destroy_idempotent:
  assumes kill: "ContainerKill c ctx name ''KILL'' w = (kerr, w1)"
    and remove: "ContainerRemove c ctx name w1 = (rerr, w2)"
    and destroy: "Destroy c ctx name w = ((cname, err), w')"
  shows "(\<exists>rest. newEvents w w' = EvKill ctx name ''KILL'' kerr # rest) \<and>
    (kerr = None \<or> (\<exists>e. kerr = Some e \<and> Contains (Error (UnwrapAll e)) ''is not running'') \<longrightarrow>
       newEvents w w' = [EvKill ctx name ''KILL'' kerr, EvRemove ctx name rerr] \<and> w' = w2 \<and>
       (rerr = None \<longrightarrow> cname = name \<and> err = None) \<and>
       (\<forall>e'. rerr = Some e' \<longrightarrow>
          cname = [] \<and> err = Some (Wrap e' ''failed to remove the container''))) \<and>
    (\<forall>e. kerr = Some e \<and> \<not> Contains (Error (UnwrapAll e)) ''is not running'' \<and>
         Contains (Error (UnwrapAll e)) ''No such container'' \<longrightarrow>
       newEvents w w' = [EvKill ctx name ''KILL'' kerr] \<and> w' = w1 \<and> cname = [] \<and> err = None) \<and>
    (\<forall>e. kerr = Some e \<and> \<not> Contains (Error (UnwrapAll e)) ''is not running'' \<and>
         \<not> Contains (Error (UnwrapAll e)) ''No such container'' \<longrightarrow>
       newEvents w w' = [EvKill ctx name ''KILL'' kerr] \<and> w' = w1 \<and> cname = [] \<and>
       err = Some (Wrap e ''failed to kill the container''))"
proof -
  note ev = Destroy_events [OF kill remove]
  note res = Destroy_result [OF kill remove, unfolded destroy]
  show ?thesis
  proof (cases "kerr = None \<or>
      (\<exists>e. kerr = Some e \<and> Contains (Error (UnwrapAll e)) ''is not running'')")
    case True
    with res have "w' = w2"
      "(cname, err) = (case rerr of None \<Rightarrow> (name, None)
          | Some e' \<Rightarrow> ([], Some (Wrap e' ''failed to remove the container'')))"
      by simp_all
    with True ev show ?thesis by (auto split: option.splits)
  next
    case False
    then obtain e where e: "kerr = Some e" "\<not> Contains (Error (UnwrapAll e)) ''is not running''"
      by auto
    with res have "w' = w1"
      "(cname, err) = (if Contains (Error (UnwrapAll e)) ''No such container''
          then ([], None) else ([], Some (Wrap e ''failed to kill the container'')))"
      by (auto split: if_splits)
    with e ev show ?thesis by (auto split: if_splits)
  qed
qed

text \<open>
  The host answers from a script. A running container is destroyed, and destroyed
  again: both calls succeed, the second on the host's answer that there is no such
  container. A container that is not running and cannot be removed: the error of the
  removal. A host that cannot be reached: the error of the kill.
\<close>

theorem Destroy_idempotent_witness:
  "fst (Destroy scripted None ''c1''
      (start [(Answer None, 0), (Answer None, 0), (Answer (Some noSuchContainer), 0)]))
     = (''c1'', None) \<and>
   fst (Destroy scripted None ''c1'' (snd (Destroy scripted None ''c1''
      (start [(Answer None, 0), (Answer None, 0), (Answer (Some noSuchContainer), 0)]))))
     = ([], None) \<and>
   fst (Destroy scripted None ''c1'' (start [(Answer (Some notRunning), 0), (Answer (Some busy), 0)]))
     = ([], Some (Wrap busy ''failed to remove the container'')) \<and>
   fst (Destroy scripted None ''c1'' (start []))
     = ([], Some (Wrap unreachable ''failed to kill the container''))"
proof -
  note D = Destroy_idempotent [OF surjective_pairing surjective_pairing triple_collapse]
  let ?s1 = "[(Answer None, 0), (Answer None, 0), (Answer (Some noSuchContainer), 0)]"
  let ?s2 = "[(Answer (Some notRunning), 0), (Answer (Some busy), 0)]"
  let ?w1 = "\<lparr>hst = [(Answer (Some noSuchContainer), 0)], now = 0,
         trace = [(0, 0, EvKill None ''c1'' ''KILL'' None), (0, 0, EvRemove None ''c1'' None)]\<rparr>"
  have 1: "Destroy scripted None ''c1'' (start ?s1) = ((''c1'', None), ?w1)"
    using D [where c = scripted and ctx = None and name = "''c1''" and w = "start ?s1"]
    by (simp add: scripted_simps prod_eq_iff)
  have 2: "fst (Destroy scripted None ''c1'' (snd (Destroy scripted None ''c1'' (start ?s1))))
      = ([], None)"
    unfolding 1 snd_conv
    using D [where c = scripted and ctx = None and name = "''c1''" and w = ?w1]
    by (simp add: scripted_simps prod_eq_iff noSuchContainer_def)
  have 3: "fst (Destroy scripted None ''c1'' (start ?s2))
      = ([], Some (Wrap busy ''failed to remove the container''))"
    using D [where c = scripted and ctx = None and name = "''c1''" and w = "start ?s2"]
    by (simp add: scripted_simps prod_eq_iff notRunning_def)
  have 4: "fst (Destroy scripted None ''c1'' (start []))
      = ([], Some (Wrap unreachable ''failed to kill the container''))"
    using D [where c = scripted and ctx = None and name = "''c1''" and w = "start []"]
    by (simp add: scripted_simps prod_eq_iff unreachable_def)
  from 1 2 3 4 show ?thesis by simp
qed

subsection \<open>PauseContainer and ResumeContainer\<close>

text \<open>
  C3. Whatever the host answers to the pause (\<open>perr\<close>) or to the unpause (\<open>uerr\<close>), that
  call is the only one made, and:
  \<^item> \<open>PauseContainer\<close> of a container the host says is already paused, and
    \<open>ResumeContainer\<close> of one the host says is not paused, return success with no error;
  \<^item> when the host says instead that there is no such container, both return the error
    \<open>container not found\<close>, which is not success and is not the wrapped error of the
    next case;
  \<^item> any other failure of the host is returned wrapped, as the error of the operation.
\<close>

theorem PauseResume_outcomes:
  assumes pause: "ContainerPause c ctx name w = (perr, w1)"
    and unpause: "ContainerUnpause c ctx name w = (uerr, w2)"
  shows "newEvents w w1 = [EvPause ctx name perr] \<and>
    newEvents w w2 = [EvUnpause ctx name uerr] \<and>
    (\<forall>e. perr = Some e \<and> Contains (Error (UnwrapAll e)) ''is already paused'' \<longrightarrow>
       PauseContainer c ctx name w = (([], None), w1)) \<and>
    (\<forall>e. uerr = Some e \<and> Contains (Error (UnwrapAll e)) ''is not paused'' \<longrightarrow>
       ResumeContainer c ctx name w = (([], None), w2)) \<and>
    (\<forall>e. perr = Some e \<and> \<not> Contains (Error (UnwrapAll e)) ''is already paused'' \<and>
         Contains (Error (UnwrapAll e)) ''No such container'' \<longrightarrow>
       PauseContainer c ctx name w = (([], Some (New ''container not found'')), w1)) \<and>
    (\<forall>e. uerr = Some e \<and> \<not> Contains (Error (UnwrapAll e)) ''is not paused'' \<and>
         Contains (Error (UnwrapAll e)) ''No such container'' \<longrightarrow>
       ResumeContainer c ctx name w = (([], Some (New ''container not found'')), w2)) \<and>
    (\<forall>e. perr = Some e \<and> \<not> Contains (Error (UnwrapAll e)) ''is already paused'' \<and>
         \<not> Contains (Error (UnwrapAll e)) ''No such container'' \<longrightarrow>
       PauseContainer c ctx name w = (([], Some (Wrap e ''failed to pause container'')), w1)) \<and>
    (\<forall>e. uerr = Some e \<and> \<not> Contains (Error (UnwrapAll e)) ''is not paused'' \<and>
         \<not> Contains (Error (UnwrapAll e)) ''No such container'' \<longrightarrow>
       ResumeContainer c ctx name w = (([], Some (Wrap e ''failed to resume container'')), w2))"
  using ContainerPause_trace [OF pause] ContainerUnpause_trace [OF unpause]
    PauseContainer_result [OF pause] ResumeContainer_result [OF unpause]
  by (simp add: newEvents_append)

text \<open>
  Scripts for the three cases of each operation: the container is already in the state
  asked for, the host has no such container, the host cannot be reached.
\<close>

theorem PauseResume_outcomes_witness:
  "fst (PauseContainer scripted None ''c1'' (start [(Answer (Some alreadyPaused), 0)])) = ([], None) \<and>
   fst (ResumeContainer scripted None ''c1'' (start [(Answer (Some notPaused), 0)])) = ([], None) \<and>
   fst (PauseContainer scripted None ''c1'' (start [(Answer (Some noSuch), 0)]))
     = ([], Some (New ''container not found'')) \<and>
   fst (ResumeContainer scripted None ''c1'' (start [(Answer (Some noSuch), 0)]))
     = ([], Some (New ''container not found'')) \<and>
   fst (PauseContainer scripted None ''c1'' (start []))
     = ([], Some (Wrap unreachable ''failed to pause container'')) \<and>
   fst (ResumeContainer scripted None ''c1'' (start []))
     = ([], Some (Wrap unreachable ''failed to resume container''))"
proof -
  note P = PauseResume_outcomes [OF surjective_pairing surjective_pairing]
  have 1: "fst (PauseContainer scripted None ''c1'' (start [(Answer (Some alreadyPaused), 0)])) = ([], None)"
    using P [where c = scripted and ctx = None and name = "''c1''"
        and w = "start [(Answer (Some alreadyPaused), 0)]"]
    by (simp add: scripted_simps alreadyPaused_def)
  have 2: "fst (ResumeContainer scripted None ''c1'' (start [(Answer (Some notPaused), 0)])) = ([], None)"
    using P [where c = scripted and ctx = None and name = "''c1''"
        and w = "start [(Answer (Some notPaused), 0)]"]
    by (simp add: scripted_simps notPaused_def)
  have 3: "fst (PauseContainer scripted None ''c1'' (start [(Answer (Some noSuch), 0)]))
       = ([], Some (New ''container not found'')) \<and>
     fst (ResumeContainer scripted None ''c1'' (start [(Answer (Some noSuch), 0)]))
       = ([], Some (New ''container not found''))"
    using P [where c = scripted and ctx = None and name = "''c1''"
        and w = "start [(Answer (Some noSuch), 0)]"]
    by (simp add: scripted_simps noSuch_def)
  have 4: "fst (PauseContainer scripted None ''c1'' (start []))
       = ([], Some (Wrap unreachable ''failed to pause container'')) \<and>
     fst (ResumeContainer scripted None ''c1'' (start []))
       = ([], Some (Wrap unreachable ''failed to resume container''))"
    using P [where c = scripted and ctx = None and name = "''c1''" and w = "start []"]
    by (simp add: scripted_simps unreachable_def)
  from 1 2 3 4 show ?thesis by simp
qed

subsection \<open>The name returned with a success\<close>

text \<open>
  C10. A success that changed nothing returns the empty string as the name, with no
  error: \<open>PauseContainer\<close> of a container already paused, \<open>ResumeContainer\<close> of one not
  paused, \<open>Destroy\<close> of one the host does not have. A success that changed the host
  returns the name it was called with: a pause or an unpause the host carried out, a
  removal the host carried out after the kill succeeded or found the container not
  running. So the result of a success that changed nothing is the same for every name.
\<close>

theorem noop_success_returns_empty_name:
  assumes pause: "ContainerPause c ctx name w = (perr, wp)"
    and unpause: "ContainerUnpause c ctx name w = (uerr, wu)"
    and kill: "ContainerKill c ctx name ''KILL'' w = (kerr, w1)"
    and remove: "ContainerRemove c ctx name w1 = (rerr, w2)"
  shows "(\<forall>e. perr = Some e \<and> Contains (Error (UnwrapAll e)) ''is already paused'' \<longrightarrow>
       fst (PauseContainer c ctx name w) = ([], None)) \<and>
    (perr = None \<longrightarrow> fst (PauseContainer c ctx name w) = (name, None)) \<and>
    (\<forall>e. uerr = Some e \<and> Contains (Error (UnwrapAll e)) ''is not paused'' \<longrightarrow>
       fst (ResumeContainer c ctx name w) = ([], None)) \<and>
    (uerr = None \<longrightarrow> fst (ResumeContainer c ctx name w) = (name, None)) \<and>
    (\<forall>e. kerr = Some e \<and> \<not> Contains (Error (UnwrapAll e)) ''is not running'' \<and>
         Contains (Error (UnwrapAll e)) ''No such container'' \<longrightarrow>
       fst (Destroy c ctx name w) = ([], None)) \<and>
    ((kerr = None \<or> (\<exists>e. kerr = Some e \<and> Contains (Error (UnwrapAll e)) ''is not running'')) \<and>
       rerr = None \<longrightarrow> fst (Destroy c ctx name w) = (name, None))"
  using PauseContainer_result [OF pause] ResumeContainer_result [OF unpause]
    Destroy_result [OF kill remove]
  by auto

text \<open>
  The same scripts, and the scripts of a host that carries the operation out.
\<close>

theorem noop_success_returns_empty_name_witness:
  "fst (PauseContainer scripted None ''c1'' (start [(Answer (Some alreadyPaused), 0)])) = ([], None) \<and>
   fst (PauseContainer scripted None ''c1'' (start [(Answer None, 0)])) = (''c1'', None) \<and>
   fst (ResumeContainer scripted None ''c1'' (start [(Answer (Some notPaused), 0)])) = ([], None) \<and>
   fst (ResumeContainer scripted None ''c1'' (start [(Answer None, 0)])) = (''c1'', None) \<and>
   fst (Destroy scripted None ''c1'' (start [(Answer (Some noSuchContainer), 0)])) = ([], None) \<and>
   fst (Destroy scripted None ''c1'' (start [(Answer None, 0), (Answer None, 0)])) = (''c1'', None) \<and>
   fst (Destroy scripted None ''c1'' (start [(Answer (Some notRunning), 0), (Answer None, 0)]))
     = (''c1'', None)"
proof -
  note N = noop_success_returns_empty_name
    [OF surjective_pairing surjective_pairing surjective_pairing surjective_pairing]
  have 1: "fst (PauseContainer scripted None ''c1'' (start [(Answer (Some alreadyPaused), 0)])) = ([], None)"
    using N [where c = scripted and ctx = None and name = "''c1''"
        and w = "start [(Answer (Some alreadyPaused), 0)]"]
    by (simp add: scripted_simps alreadyPaused_def)
  have 2: "fst (ResumeContainer scripted None ''c1'' (start [(Answer (Some notPaused), 0)])) = ([], None)"
    using N [where c = scripted and ctx = None and name = "''c1''"
        and w = "start [(Answer (Some notPaused), 0)]"]
    by (simp add: scripted_simps notPaused_def)
  have 3: "fst (PauseContainer scripted None ''c1'' (start [(Answer None, 0)])) = (''c1'', None) \<and>
      fst (ResumeContainer scripted None ''c1'' (start [(Answer None, 0)])) = (''c1'', None)"
    using N [where c = scripted and ctx = None and name = "''c1''" and w = "start [(Answer None, 0)]"]
    by (simp add: scripted_simps)
  have 4: "fst (Destroy scripted None ''c1'' (start [(Answer (Some noSuchContainer), 0)])) = ([], None)"
    using N [where c = scripted and ctx = None and name = "''c1''"
        and w = "start [(Answer (Some noSuchContainer), 0)]"]
    by (simp add: scripted_simps noSuchContainer_def)
  have 5: "fst (Destroy scripted None ''c1'' (start [(Answer None, 0), (Answer None, 0)])) = (''c1'', None)"
    using N [where c = scripted and ctx = None and name = "''c1''"
        and w = "start [(Answer None, 0), (Answer None, 0)]"]
    by (simp add: scripted_simps)
  have 6: "fst (Destroy scripted None ''c1'' (start [(Answer (Some notRunning), 0), (Answer None, 0)]))
     = (''c1'', None)"
    using N [where c = scripted and ctx = None and name = "''c1''"
        and w = "start [(Answer (Some notRunning), 0), (Answer None, 0)]"]
    by (simp add: scripted_simps notRunning_def)
  from 1 2 3 4 5 6 show ?thesis by simp
qed

subsection \<open>WaitUntilRunning\<close>

lemma selectCase_timer:
  "selectCase c D t = (True, u) \<Longrightarrow> u = t + interval \<and> u \<le> D"
  by (auto simp: selectCase_def Let_def interval_def max_def split: if_splits)

lemma selectCase_done:
  "selectCase c D t = (False, u) \<Longrightarrow> u = max D t \<and> D \<le> t + interval"
  by (auto simp: selectCase_def Let_def interval_def max_def split: if_splits)

lemma IsRunning_trace:
  assumes "IsRunning c cx name w0 = (r, w1)"
  shows "\<exists>cj er. trace w1 = trace w0 @ [(now w0, now w1, EvInspect cx name cj er)] \<and>
    r = isRunningOf c (cj, er) \<and> now w0 \<le> now w1"
proof -
  obtain cj er where g: "ContainerInspect c cx name w0 = ((cj, er), w1)"
    and r: "r = isRunningOf c (cj, er)"
    using assms by (auto simp: IsRunning_def GetContainer_def split: prod.splits)
  from g have "now w0 \<le> now w1"
    by (auto simp: ContainerInspect_def dest: invoke_now)
  with ContainerInspect_trace [OF g] r show ?thesis by blast
qed

lemma timedOut_trace:
  assumes "timedOut c ctx name timeout w0 = (r, w1)"
  shows "\<exists>cj er. trace w1 = trace w0 @ [(now w0, now w1, EvInspect ctx name cj er)] \<and>
    r = (case ContainerJSONBase cj of None \<Rightarrow> Panic
         | Some base \<Rightarrow> Return (Some (timeoutError c timeout))) \<and> now w0 \<le> now w1"
proof -
  obtain cj er where g: "ContainerInspect c ctx name w0 = ((cj, er), w1)"
    and r: "r = (case ContainerJSONBase cj of None \<Rightarrow> Panic
         | Some base \<Rightarrow> Return (Some (timeoutError c timeout)))"
    using assms by (auto simp: timedOut_def GetContainer_def split: prod.splits option.splits)
  from g have "now w0 \<le> now w1"
    by (auto simp: ContainerInspect_def dest: invoke_now)
  with ContainerInspect_trace [OF g] r show ?thesis by blast
qed

lemma waitLoop_done:
  "selectCase c D (now w) = (False, t) \<Longrightarrow>
     waitLoop c ctx D name timeout w = timedOut c ctx name timeout (w\<lparr>now := t\<rparr>)"
  by (subst waitLoop.simps) simp

lemma waitLoop_timer:
  "selectCase c D (now w) = (True, t) \<Longrightarrow>
   IsRunning c (Some D) name (w\<lparr>now := t\<rparr>) = (r, w1) \<Longrightarrow>
     waitLoop c ctx D name timeout w =
       (case r of
          Panic \<Rightarrow> (Panic, w1)
        | Return (isRunning, Some err) \<Rightarrow>
            (Return (Some (Wrap err ''failed to check if container is running'')), w1)
        | Return (isRunning, None) \<Rightarrow>
            if isRunning then (Return None, w1) else waitLoop c ctx D name timeout w1)"
  by (subst waitLoop.simps) (simp split: outcome.splits option.splits prod.splits)

lemma lastAnswered_Cons: "lastAnswered t0 ((u, v, e) # es) = lastAnswered v es"
  by (simp add: lastAnswered_def)

lemma waitLoop_run:
  "waitLoop c ctx D name timeout w = (r, w') \<Longrightarrow>
   \<exists>ps t cx cj er.
     trace w' = trace w @ ps @ [(t, now w', EvInspect cx name cj er)] \<and> t \<le> now w' \<and>
     notRunningPolls c D name (now w) ps \<and>
     (cx = Some D \<and> t = lastAnswered (now w) ps + interval \<and> t \<le> D \<and>
        (isRunningOf c (cj, er) = Return (True, None) \<and> r = Return None \<or>
         (\<exists>b err. isRunningOf c (cj, er) = Return (b, Some err) \<and>
            r = Return (Some (Wrap err ''failed to check if container is running''))) \<or>
         isRunningOf c (cj, er) = Panic \<and> r = Panic) \<or>
      cx = ctx \<and> t = max D (lastAnswered (now w) ps) \<and> D \<le> lastAnswered (now w) ps + interval \<and>
        r = (case ContainerJSONBase cj of None \<Rightarrow> Panic
             | Some base \<Rightarrow> Return (Some (timeoutError c timeout))))"
proof (induction c ctx D name timeout w rule: waitLoop.induct)
  case (1 c ctx D name timeout w)
  obtain x t where sel: "selectCase c D (now w) = (x, t)"
    by (cases "selectCase c D (now w)")
  show ?case
  proof (cases x)
    case False
    with sel have sel': "selectCase c D (now w) = (False, t)" by simp
    from selectCase_done [OF sel'] have t: "t = max D (now w)" "D \<le> now w + interval"
      by simp_all
    from "1.prems" waitLoop_done [OF sel'] have
      "timedOut c ctx name timeout (w\<lparr>now := t\<rparr>) = (r, w')" by simp
    from timedOut_trace [OF this] obtain cj er where
      tr: "trace w' = trace w @ [(t, now w', EvInspect ctx name cj er)]"
      and r: "r = (case ContainerJSONBase cj of None \<Rightarrow> Panic
             | Some base \<Rightarrow> Return (Some (timeoutError c timeout)))"
      and le: "t \<le> now w'"
      by auto
    show ?thesis
      apply (rule exI [of _ "[]"])
      apply (rule exI [of _ t], rule exI [of _ ctx], rule exI [of _ cj], rule exI [of _ er])
      using tr r le t by (simp add: lastAnswered_def)
  next
    case True
    with sel have sel': "selectCase c D (now w) = (True, t)" by simp
    from selectCase_timer [OF sel'] have t: "t = now w + interval" "t \<le> D"
      by simp_all
    obtain o1 w1 where run: "IsRunning c (Some D) name (w\<lparr>now := t\<rparr>) = (o1, w1)"
      by (cases "IsRunning c (Some D) name (w\<lparr>now := t\<rparr>)")
    from IsRunning_trace [OF run] obtain cj er where
      tr: "trace w1 = trace w @ [(t, now w1, EvInspect (Some D) name cj er)]"
      and o1: "o1 = isRunningOf c (cj, er)" and le: "t \<le> now w1"
      by auto
    note step = waitLoop_timer [OF sel' run, of ctx timeout, unfolded "1.prems"]
    show ?thesis
    proof (cases "o1 = Return (False, None)")
      case False
      with step have w': "w' = w1" and r: "
         (o1 = Return (True, None) \<and> r = Return None \<or>
         (\<exists>b err. o1 = Return (b, Some err) \<and>
            r = Return (Some (Wrap err ''failed to check if container is running''))) \<or>
         o1 = Panic \<and> r = Panic)"
        by (auto split: outcome.splits option.splits prod.splits if_splits)
      show ?thesis
        apply (rule exI [of _ "[]"])
        apply (rule exI [of _ t], rule exI [of _ "Some D"], rule exI [of _ cj], rule exI [of _ er])
        using tr r le t w' o1 by (simp add: lastAnswered_def)
    next
      case True
      with step have rec: "waitLoop c ctx D name timeout w1 = (r, w')" by simp
      from "1.IH" [OF sel' [symmetric] refl run [symmetric] True refl refl _ rec]
      obtain ps u cx cj' er' where
        tr': "trace w' = trace w1 @ ps @ [(u, now w', EvInspect cx name cj' er')]"
        and le': "u \<le> now w'"
        and ps: "notRunningPolls c D name (now w1) ps"
        and fin: "cx = Some D \<and> u = lastAnswered (now w1) ps + interval \<and> u \<le> D \<and>
        (isRunningOf c (cj', er') = Return (True, None) \<and> r = Return None \<or>
         (\<exists>b err. isRunningOf c (cj', er') = Return (b, Some err) \<and>
            r = Return (Some (Wrap err ''failed to check if container is running''))) \<or>
         isRunningOf c (cj', er') = Panic \<and> r = Panic) \<or>
      cx = ctx \<and> u = max D (lastAnswered (now w1) ps) \<and> D \<le> lastAnswered (now w1) ps + interval \<and>
        r = (case ContainerJSONBase cj' of None \<Rightarrow> Panic
             | Some base \<Rightarrow> Return (Some (timeoutError c timeout)))"
        by auto
      let ?p = "(t, now w1, EvInspect (Some D) name cj er)"
      have ps': "notRunningPolls c D name (now w) (?p # ps)"
        using ps t le True o1 by simp
      have la: "lastAnswered (now w) (?p # ps) = lastAnswered (now w1) ps"
        by (rule lastAnswered_Cons)
      show ?thesis
        apply (rule exI [of _ "?p # ps"])
        apply (rule exI [of _ u], rule exI [of _ cx], rule exI [of _ cj'], rule exI [of _ er'])
        using tr tr' le' ps' fin unfolding la by simp
    qed
  qed
qed

lemmas wait_simps = WaitUntilRunning_def WithTimeout_def waitLoop.simps selectCase_def
  IsRunning_def GetContainer_def isRunningOf_def timedOut_def interval_def Let_def

lemma notRunningPolls_entry:
  "notRunningPolls c D name t0 ps \<Longrightarrow> (u, v, e) \<in> set ps \<Longrightarrow>
     u \<le> D \<and> (\<exists>cx cj er. e = EvInspect cx name cj er)"
  by (induction ps arbitrary: t0) (auto split: event.splits)

lemma waitLoop_bound:
  assumes run: "waitLoop c ctx D name timeout w = (r, w')"
    and lat: "\<forall>(u, v, e) \<in> set (newEntries w w'). v - u \<le> L"
  shows "now w' \<le> max (now w) D + 2 * L"
proof -
  from waitLoop_run [OF run] obtain ps t cx cj er where
    tr: "trace w' = trace w @ ps @ [(t, now w', EvInspect cx name cj er)]"
    and le: "t \<le> now w'"
    and ps: "notRunningPolls c D name (now w) ps"
    and fin: "cx = Some D \<and> t \<le> D \<or> t = max D (lastAnswered (now w) ps)"
    by auto
  have new: "newEntries w w' = ps @ [(t, now w', EvInspect cx name cj er)]"
    using tr by (rule newEntries_append)
  with lat have last: "now w' - t \<le> L" by simp
  with le have L: "0 \<le> L" by simp
  have "t \<le> max (now w) D + L"
  proof (cases "ps = []")
    case True
    with fin L show ?thesis by (auto simp: lastAnswered_def)
  next
    case False
    obtain u v e where uve: "last ps = (u, v, e)" by (cases "last ps")
    with False have mem: "(u, v, e) \<in> set ps" by (metis last_in_set)
    with new lat have "v - u \<le> L" by auto
    moreover from notRunningPolls_entry [OF ps mem] have "u \<le> D" by simp
    moreover from False uve have "lastAnswered (now w) ps = v" by (simp add: lastAnswered_def)
    ultimately show ?thesis using fin L by auto
  qed
  with last show ?thesis by simp
qed

lemma waitLoop_inspects:
  assumes run: "waitLoop c ctx D name timeout w = (r, w')"
  shows "\<exists>es. trace w' = trace w @ es \<and>
    (\<forall>(u, v, e) \<in> set es. \<exists>cx cj er. e = EvInspect cx name cj er)"
proof -
  from waitLoop_run [OF run] obtain ps t cx cj er where
    tr: "trace w' = trace w @ ps @ [(t, now w', EvInspect cx name cj er)]"
    and ps: "notRunningPolls c D name (now w) ps"
    by auto
  show ?thesis
    apply (rule exI [of _ "ps @ [(t, now w', EvInspect cx name cj er)]"])
    using tr notRunningPolls_entry [OF ps] by auto
qed

text \<open>
  C4, as the code has it. Every wait ends with an inspection of the container, after
  a number of queries of its running state that were each answered "not running"
  (\<open>ps\<close>, possibly none). Every query is issued exactly one interval after the wait
  started or after the query before it was answered, and not after the deadline \<open>D\<close>: there
  is no query before one interval has passed. The last call, issued at \<open>t\<close>, is
  \<^item> a query of the running state that observes the container running: the wait returns
    success when this first such observation is answered (\<open>now w'\<close>), without waiting
    for the deadline; or
  \<^item> a query that fails: the wait returns its error, wrapped; or
  \<^item> a query whose answer has a nil pointer where the state is read; or
  \<^item> the diagnostic inspection, made with the caller's context at the deadline, or at
    once when the deadline has passed by the time a turn of the loop starts; the wait
    does not return success, and it returns the timeout error when the inspection gave
    a container record.
  The wait returns when its last call is answered. When no call of the wait takes the
  host more than \<open>L\<close>, that is at most \<open>2 * L\<close> after the deadline (or after the start, if
  later): one interval is not a bound, since nothing bounds the host's answering time.
\<close>

theorem WaitUntilRunning_polling:
  assumes run: "WaitUntilRunning c ctx name timeout w = (r, w')"
    and D: "D = WithTimeout ctx timeout (now w)"
  shows "(\<exists>ps t cx cj er.
      newEntries w w' = ps @ [(t, now w', EvInspect cx name cj er)] \<and>
      notRunningPolls c D name (now w) ps \<and>
      (cx = Some D \<and> t = lastAnswered (now w) ps + interval \<and> t \<le> D \<and>
         (isRunningOf c (cj, er) = Return (True, None) \<and> r = Return None \<or>
          (\<exists>b err. isRunningOf c (cj, er) = Return (b, Some err) \<and>
             r = Return (Some (Wrap err ''failed to check if container is running''))) \<or>
          isRunningOf c (cj, er) = Panic \<and> r \<noteq> Return None) \<or>
       cx = ctx \<and> t = max D (lastAnswered (now w) ps) \<and>
         D \<le> lastAnswered (now w) ps + interval \<and> r \<noteq> Return None \<and>
         (ContainerJSONBase cj \<noteq> None \<longrightarrow> r = Return (Some (timeoutError c timeout))))) \<and>
    ((\<forall>(u, v, e) \<in> set (newEntries w w'). v - u \<le> L) \<longrightarrow> now w' \<le> max (now w) D + 2 * L)"
proof -
  from run D have loop: "waitLoop c ctx D name timeout w = (r, w')"
    by (simp add: WaitUntilRunning_def)
  from waitLoop_run [OF loop] obtain ps t cx cj er where
    tr: "trace w' = trace w @ ps @ [(t, now w', EvInspect cx name cj er)]"
    and ps: "notRunningPolls c D name (now w) ps"
    and fin: "cx = Some D \<and> t = lastAnswered (now w) ps + interval \<and> t \<le> D \<and>
        (isRunningOf c (cj, er) = Return (True, None) \<and> r = Return None \<or>
         (\<exists>b err. isRunningOf c (cj, er) = Return (b, Some err) \<and>
            r = Return (Some (Wrap err ''failed to check if container is running''))) \<or>
         isRunningOf c (cj, er) = Panic \<and> r = Panic) \<or>
      cx = ctx \<and> t = max D (lastAnswered (now w) ps) \<and> D \<le> lastAnswered (now w) ps + interval \<and>
        r = (case ContainerJSONBase cj of None \<Rightarrow> Panic
             | Some base \<Rightarrow> Return (Some (timeoutError c timeout)))"
    by auto
  have new: "newEntries w w' = ps @ [(t, now w', EvInspect cx name cj er)]"
    using tr by (rule newEntries_append)
  have shape: "\<exists>ps t cx cj er.
      newEntries w w' = ps @ [(t, now w', EvInspect cx name cj er)] \<and>
      notRunningPolls c D name (now w) ps \<and>
      (cx = Some D \<and> t = lastAnswered (now w) ps + interval \<and> t \<le> D \<and>
         (isRunningOf c (cj, er) = Return (True, None) \<and> r = Return None \<or>
          (\<exists>b err. isRunningOf c (cj, er) = Return (b, Some err) \<and>
             r = Return (Some (Wrap err ''failed to check if container is running''))) \<or>
          isRunningOf c (cj, er) = Panic \<and> r \<noteq> Return None) \<or>
       cx = ctx \<and> t = max D (lastAnswered (now w) ps) \<and>
         D \<le> lastAnswered (now w) ps + interval \<and> r \<noteq> Return None \<and>
         (ContainerJSONBase cj \<noteq> None \<longrightarrow> r = Return (Some (timeoutError c timeout))))"
    apply (rule exI [of _ ps])
    apply (rule exI [of _ t], rule exI [of _ cx], rule exI [of _ cj], rule exI [of _ er])
    using new ps fin by (auto split: option.splits)
  with waitLoop_bound [OF loop, of L] show ?thesis by blast
qed

text \<open>
  A container that is not running at the first query and running at the second, on a
  host that answers at once; the timeout is five intervals.
\<close>

theorem WaitUntilRunning_polling_witness:
  "fst (WaitUntilRunning scripted None ''c1'' 5000000000
      (start [(Inspected (inspected False) None, 0), (Inspected (inspected True) None, 0)]))
     = Return None \<and>
   now (snd (WaitUntilRunning scripted None ''c1'' 5000000000
      (start [(Inspected (inspected False) None, 0), (Inspected (inspected True) None, 0)])))
     \<le> 5000000000"
proof -
  let ?w = "start [(Inspected (inspected False) None, 0), (Inspected (inspected True) None, 0)]"
  have 1: "fst (WaitUntilRunning scripted None ''c1'' 5000000000 ?w) = Return None"
    by (simp add: wait_simps scripted_simps inspected_def)
  have 2: "now (snd (WaitUntilRunning scripted None ''c1'' 5000000000 ?w)) \<le> 5000000000"
    using WaitUntilRunning_polling [OF surjective_pairing refl,
        where c = scripted and ctx = None and name = "''c1''" and timeout = 5000000000
          and w = ?w and L = 0, THEN conjunct2]
    by (simp add: wait_simps scripted_simps inspected_def)
  from 1 2 show ?thesis by simp
qed

text \<open>
  C4, as the specification has it, fails: the wait can return later than one interval
  after the deadline. The timeout is half an interval, so the deadline comes before the
  first query; the host takes five intervals to answer the diagnostic inspection, which
  is made with the caller's context and no deadline. The wait returns the timeout error
  at five and a half intervals; the deadline plus one interval is one and a half.
\<close>

theorem WaitUntilRunning_returns_late:
  "fst (WaitUntilRunning scripted None ''c1'' 500000000
      (start [(Inspected (inspected False) None, 5000000000)]))
     = Return (Some (timeoutError scripted 500000000)) \<and>
   WithTimeout None 500000000 (now (start [(Inspected (inspected False) None, 5000000000)]))
     + interval
     < now (snd (WaitUntilRunning scripted None ''c1'' 500000000
      (start [(Inspected (inspected False) None, 5000000000)])))"
  by (simp add: wait_simps scripted_simps inspected_def)

text \<open>
  C5. The host has no container \<open>ghost\<close>: every inspection fails with "No such
  container" and the zero \<^verbatim>\<open>ContainerJSON\<close>. The two queries before the deadline (two
  and a half intervals) are answered "not running"; the diagnostic inspection at the
  deadline fails, and reading \<^verbatim>\<open>container.State\<close> panics: the failure of the diagnostic
  inspection is not swallowed, and no timeout error is returned.
\<close>

theorem WaitUntilRunning_panics_when_the_diagnostic_inspection_fails:
  "fst (WaitUntilRunning scripted None ''ghost'' 2500000000
     (start [(Inspected \<lparr>ContainerJSONBase = None, NetworkSettings = None\<rparr> (Some noSuch), 0),
       (Inspected \<lparr>ContainerJSONBase = None, NetworkSettings = None\<rparr> (Some noSuch), 0),
       (Inspected \<lparr>ContainerJSONBase = None, NetworkSettings = None\<rparr> (Some noSuch), 0)]))
     = Panic"
  by (simp add: wait_simps scripted_simps noSuch_def)

subsection \<open>StartEnvd\<close>

lemma servicePort_Inr:
  assumes "servicePort c declared portInContainer config hostConfig w = (Inr (config', hostConfig', port), w1)"
  shows "config' = (if declared
           then config\<lparr>ExposedPorts := insert (natPort portInContainer) (ExposedPorts config)\<rparr>
           else config)"
    and "hostConfig' = (if declared
           then bindPort hostConfig (natPort portInContainer) port else hostConfig)"
    and "\<not> declared \<Longrightarrow> port = 0"
    and "trace w1 = trace w @
           (if declared then [(now w, now w1, EvGetFreePort port None)] else [])"
  using assms
  by (auto simp: servicePort_def Let_def split: if_splits prod.splits option.splits
      dest: GetFreePort_trace)

lemma servicePort_Inl:
  assumes "servicePort c declared portInContainer config hostConfig w = (Inl err, w1)"
  shows "\<exists>port e. trace w1 = trace w @ [(now w, now w1, EvGetFreePort port (Some e))] \<and>
    err = Wrap e ''failed to get a free port''"
  using assms
  by (auto simp: servicePort_def Let_def split: if_splits prod.splits option.splits
      dest: GetFreePort_trace)

lemma buildSpec_Inr:
  fixes c :: "'h host"
  assumes "buildSpec c p tag name buildContext gpuEnabled numGPUs sshPortInHost g
      mountOptionsStr w = (Inr (config, hostConfig), w1)"
  obtains ms jp rp and wj :: "'h world" where
    "mountOptions mountOptionsStr = Inr ms"
    "JupyterConfig g = None \<Longrightarrow> jp = 0"
    "RStudioServerConfig g = None \<Longrightarrow> rp = 0"
    "trace w1 = trace w @
      (if JupyterConfig g \<noteq> None then [(now w, now wj, EvGetFreePort jp None)] else []) @
      (if RStudioServerConfig g \<noteq> None then [(now wj, now w1, EvGetFreePort rp None)] else [])"
    "config = \<lparr>Image = tag, User = ''envd'',
      ExposedPorts =
        (if JupyterConfig g \<noteq> None then {natPort (JupyterPortInContainer p)} else {}) \<union>
        (if RStudioServerConfig g \<noteq> None then {natPort (RStudioServerPortInContainer p)} else {}),
      WorkingDir = Join [''/home/envd'', fileutilBase p buildContext],
      Labels = labels p name g sshPortInHost jp rp\<rparr>"
    "hostConfig = \<lparr>PortBindings =
        (\<lambda>key. if RStudioServerConfig g \<noteq> None \<and> key = natPort (RStudioServerPortInContainer p)
           then Some (binding rp)
           else if JupyterConfig g \<noteq> None \<and> key = natPort (JupyterPortInContainer p)
           then Some (binding jp)
           else if key = natPort (SSHPortInContainer p) then Some (binding sshPortInHost)
           else None),
      Mounts = ms @ [\<lparr>Type = TypeBind, Source = buildContext,
        Target = Join [''/home/envd'', fileutilBase p buildContext]\<rparr>],
      DeviceRequests = (if gpuEnabled then deviceRequests numGPUs else [])\<rparr>"
proof -
  let ?base = "Join [''/home/envd'', fileutilBase p buildContext]"
  let ?config0 = "\<lparr>Image = tag, User = ''envd'', ExposedPorts = {}, WorkingDir = ?base,
    Labels = Map.empty\<rparr>"
  from assms obtain ms where ms: "mountOptions mountOptionsStr = Inr ms"
    by (auto simp: buildSpec_def Let_def split: sum.splits)
  let ?hc0 = "bindPort \<lparr>PortBindings = Map.empty,
      Mounts = ms @ [\<lparr>Type = TypeBind, Source = buildContext, Target = ?base\<rparr>],
      DeviceRequests = []\<rparr> (natPort (SSHPortInContainer p)) sshPortInHost"
  from assms ms obtain cj hj jp wj cr hr rp where
    j: "servicePort c (JupyterConfig g \<noteq> None) (JupyterPortInContainer p) ?config0 ?hc0 w
         = (Inr (cj, hj, jp), wj)"
    and r: "servicePort c (RStudioServerConfig g \<noteq> None) (RStudioServerPortInContainer p) cj hj wj
         = (Inr (cr, hr, rp), w1)"
    and config: "config = cr\<lparr>Labels := labels p name g sshPortInHost jp rp\<rparr>"
    and hostConfig: "hostConfig =
      (if gpuEnabled then hr\<lparr>DeviceRequests := deviceRequests numGPUs\<rparr> else hr)"
    by (auto simp: buildSpec_def Let_def split: sum.splits prod.splits)
  note J = servicePort_Inr [OF j] and R = servicePort_Inr [OF r]
  show thesis
  proof (rule that [of ms jp rp wj])
    show "mountOptions mountOptionsStr = Inr ms" by (rule ms)
    show "jp = 0" if "JupyterConfig g = None" using that J(3) by simp
    show "rp = 0" if "RStudioServerConfig g = None" using that R(3) by simp
    show "trace w1 = trace w @
      (if JupyterConfig g \<noteq> None then [(now w, now wj, EvGetFreePort jp None)] else []) @
      (if RStudioServerConfig g \<noteq> None then [(now wj, now w1, EvGetFreePort rp None)] else [])"
      using J(4) R(4) by simp
    show "config = \<lparr>Image = tag, User = ''envd'',
      ExposedPorts =
        (if JupyterConfig g \<noteq> None then {natPort (JupyterPortInContainer p)} else {}) \<union>
        (if RStudioServerConfig g \<noteq> None then {natPort (RStudioServerPortInContainer p)} else {}),
      WorkingDir = Join [''/home/envd'', fileutilBase p buildContext],
      Labels = labels p name g sshPortInHost jp rp\<rparr>"
      using config J(1) R(1) by auto
    show "hostConfig = \<lparr>PortBindings =
        (\<lambda>key. if RStudioServerConfig g \<noteq> None \<and> key = natPort (RStudioServerPortInContainer p)
           then Some (binding rp)
           else if JupyterConfig g \<noteq> None \<and> key = natPort (JupyterPortInContainer p)
           then Some (binding jp)
           else if key = natPort (SSHPortInContainer p) then Some (binding sshPortInHost)
           else None),
      Mounts = ms @ [\<lparr>Type = TypeBind, Source = buildContext,
        Target = Join [''/home/envd'', fileutilBase p buildContext]\<rparr>],
      DeviceRequests = (if gpuEnabled then deviceRequests numGPUs else [])\<rparr>"
      using hostConfig J(2) R(2) by (auto simp: bindPort_def binding_def fun_eq_iff)
  qed
qed

lemma buildSpec_mount_error:
  "mountOptions mountOptionsStr = Inl err \<Longrightarrow>
     buildSpec c p tag name buildContext gpuEnabled numGPUs sshPortInHost g mountOptionsStr w
       = (Inl err, w)"
  by (simp add: buildSpec_def)

lemma buildSpec_Inl:
  fixes c :: "'h host"
  assumes "buildSpec c p tag name buildContext gpuEnabled numGPUs sshPortInHost g
      mountOptionsStr w = (Inl err, w1)"
    and "mountOptions mountOptionsStr = Inr ms"
  obtains es u v port e where
    "trace w1 = trace w @ es @ [(u, v, EvGetFreePort port (Some e))]"
    "err = Wrap e ''failed to get a free port''"
    "\<forall>(a, b, ev) \<in> set es. \<exists>q. ev = EvGetFreePort q None"
proof -
  let ?base = "Join [''/home/envd'', fileutilBase p buildContext]"
  let ?config0 = "\<lparr>Image = tag, User = ''envd'', ExposedPorts = {}, WorkingDir = ?base,
    Labels = Map.empty\<rparr>"
  let ?hc0 = "bindPort \<lparr>PortBindings = Map.empty,
      Mounts = ms @ [\<lparr>Type = TypeBind, Source = buildContext, Target = ?base\<rparr>],
      DeviceRequests = []\<rparr> (natPort (SSHPortInContainer p)) sshPortInHost"
  obtain rj wj where j: "servicePort c (JupyterConfig g \<noteq> None) (JupyterPortInContainer p)
      ?config0 ?hc0 w = (rj, wj)"
    by (cases "servicePort c (JupyterConfig g \<noteq> None) (JupyterPortInContainer p) ?config0 ?hc0 w")
  show thesis
  proof (cases rj)
    case (Inl e1)
    with assms j have "err = e1" "w1 = wj"
      by (auto simp: buildSpec_def Let_def)
    with servicePort_Inl [OF j [unfolded Inl]] that [of "[]"] show thesis
      by auto
  next
    case (Inr x)
    then obtain cj hj jp where x: "rj = Inr (cj, hj, jp)" by (cases x) auto
    with assms j have r: "servicePort c (RStudioServerConfig g \<noteq> None)
        (RStudioServerPortInContainer p) cj hj wj = (Inl err, w1)"
      by (auto simp: buildSpec_def Let_def split: sum.splits prod.splits)
    from servicePort_Inl [OF r] obtain port e where
      tr: "trace w1 = trace wj @ [(now wj, now w1, EvGetFreePort port (Some e))]"
      and err: "err = Wrap e ''failed to get a free port''"
      by auto
    note J = servicePort_Inr(4) [OF j [unfolded x]]
    show thesis
      by (rule that [of "if JupyterConfig g \<noteq> None then [(now w, now wj, EvGetFreePort jp None)] else []"
            "now wj" "now w1" port e])
        (use tr err J in auto)
  qed
qed

lemma WaitUntilRunning_inspects:
  assumes "WaitUntilRunning c ctx name timeout w = (r, w')"
  shows "\<exists>es. trace w' = trace w @ es \<and> (\<forall>(u, v, e) \<in> set es. isInspect e)"
proof -
  from assms have "waitLoop c ctx (WithTimeout ctx timeout (now w)) name timeout w = (r, w')"
    by (simp add: WaitUntilRunning_def)
  from waitLoop_inspects [OF this] show ?thesis by fastforce
qed

lemma runContainer_trace:
  fixes c :: "'h host"
  assumes run: "runContainer c ctx name timeout config hostConfig w = (r, w')"
  obtains u v resp cerr rest where
    "trace w' = trace w @ (u, v, EvCreate ctx config hostConfig name resp cerr) # rest"
    "\<forall>(a, b, e) \<in> set rest. (\<exists>serr. e = EvStart ctx (ID resp) serr) \<or> isInspect e"
    "\<And>a b cx cid err. (a, b, EvStart cx cid (Some err)) \<in> set rest \<Longrightarrow>
       r = Return ([], [], Some
         (if Contains (Error (UnwrapAll err)) ''port is already allocated''
          then New ''jupyter port is already allocated in the host''
          else Wrap err ''failed to run the container''))"
proof -
  obtain resp cerr w1 where create: "ContainerCreate c ctx config hostConfig name w = ((resp, cerr), w1)"
    by (metis surj_pair)
  note t1 = ContainerCreate_trace [OF create]
  show thesis
  proof (cases cerr)
    case (Some e)
    with run create have "w' = w1" by (simp add: runContainer_def)
    with t1 show thesis by (intro that [of "now w" "now w1" resp cerr "[]"]) auto
  next
    case None
    obtain serr w2 where start: "ContainerStart c ctx (ID resp) w1 = (serr, w2)"
      by (metis surj_pair)
    note t2 = ContainerStart_trace [OF start]
    show thesis
    proof (cases serr)
      case (Some e)
      with run create start None have "w' = w2"
        "r = Return ([], [], Some
         (if Contains (Error (UnwrapAll e)) ''port is already allocated''
          then New ''jupyter port is already allocated in the host''
          else Wrap e ''failed to run the container''))"
        by (auto simp: runContainer_def split: if_splits)
      with t1 t2 Some show thesis
        by (intro that [of "now w" "now w1" resp cerr "[(now w1, now w2, EvStart ctx (ID resp) serr)]"]) auto
    next
      case serrNone: None
      obtain cj ierr w3 where inspect: "GetContainer c ctx (ID resp) w2 = ((cj, ierr), w3)"
        by (metis surj_pair)
      then have t3: "trace w3 = trace w2 @ [(now w2, now w3, EvInspect ctx (ID resp) cj ierr)]"
        by (simp add: GetContainer_def ContainerInspect_trace)
      have "\<exists>es. trace w' = trace w3 @ es \<and> (\<forall>(u, v, e) \<in> set es. isInspect e)"
      proof (cases "ierr = None \<and> ContainerJSONBase cj \<noteq> None")
        case False
        with run create start None serrNone inspect have "w' = w3"
          by (auto simp: runContainer_def split: option.splits)
        then show ?thesis by simp
      next
        case True
        then obtain base where base: "ContainerJSONBase cj = Some base" by auto
        obtain wr w4 where wait: "WaitUntilRunning c ctx (Name base) timeout w3 = (wr, w4)"
          by (metis surj_pair)
        with run create start None serrNone inspect True base have "w' = w4"
          by (auto simp: runContainer_def split: option.splits outcome.splits)
        with WaitUntilRunning_inspects [OF wait] show ?thesis by simp
      qed
      then obtain es where es: "trace w' = trace w3 @ es" "\<forall>(u, v, e) \<in> set es. isInspect e"
        by auto
      show thesis
        by (intro that [of "now w" "now w1" resp cerr
              "(now w1, now w2, EvStart ctx (ID resp) serr) #
               (now w2, now w3, EvInspect ctx (ID resp) cj ierr) # es"])
          (use t1 t2 t3 es serrNone in auto)
    qed
  qed
qed

lemma createdOf_append: "createdOf (xs @ ys) = createdOf xs @ createdOf ys"
  by (induction xs rule: createdOf.induct) auto

lemma allocatedOf_append: "allocatedOf (xs @ ys) = allocatedOf xs @ allocatedOf ys"
  by (induction xs rule: allocatedOf.induct) auto

lemma createdOf_none: "\<forall>e \<in> set es. \<not> isCreate e \<Longrightarrow> createdOf es = []"
  by (induction es rule: createdOf.induct) auto

lemma allocatedOf_none: "\<forall>e \<in> set es. \<not> isGetFreePort e \<Longrightarrow> allocatedOf es = []"
  by (induction es rule: allocatedOf.induct) auto

lemma buildSpec_trace:
  fixes c :: "'h host"
  assumes "buildSpec c p tag name buildContext gpuEnabled numGPUs sshPortInHost g
      mountOptionsStr w = (r, w1)"
  shows "\<exists>es. trace w1 = trace w @ es \<and> (\<forall>(a, b, e) \<in> set es. isGetFreePort e)"
proof (cases r)
  case (Inl err)
  show ?thesis
  proof (cases "mountOptions mountOptionsStr")
    case mo: (Inl e)
    from assms have "w1 = w" by (simp add: buildSpec_mount_error [OF mo])
    then show ?thesis by simp
  next
    case (Inr ms)
    show ?thesis
    proof (rule buildSpec_Inl [OF assms [unfolded Inl] Inr])
      fix es u v port e
      assume "trace w1 = trace w @ es @ [(u, v, EvGetFreePort port (Some e))]"
        "\<forall>(a, b, ev) \<in> set es. \<exists>q. ev = EvGetFreePort q None"
      then show ?thesis
        by (intro exI [of _ "es @ [(u, v, EvGetFreePort port (Some e))]"]) auto
    qed
  qed
next
  case (Inr x)
  then obtain config hostConfig where "r = Inr (config, hostConfig)" by (cases x) auto
  from assms [unfolded this] show ?thesis
  proof (rule buildSpec_Inr)
    fix jp rp and wj :: "'h world"
    assume "trace w1 = trace w @
      (if JupyterConfig g \<noteq> None then [(now w, now wj, EvGetFreePort jp None)] else []) @
      (if RStudioServerConfig g \<noteq> None then [(now wj, now w1, EvGetFreePort rp None)] else [])"
    then show ?thesis
      by (intro exI [of _ "(if JupyterConfig g \<noteq> None then [(now w, now wj, EvGetFreePort jp None)] else []) @
        (if RStudioServerConfig g \<noteq> None then [(now wj, now w1, EvGetFreePort rp None)] else [])"]) auto
  qed
qed

lemma StartEnvd_cases:
  fixes c :: "'h host"
  assumes run: "StartEnvd c p ctx tag name buildContext gpuEnabled numGPUs sshPortInHost g
      timeout mountOptionsStr w = (r, w')"
  obtains (failed) err es where
      "buildSpec c p tag name buildContext gpuEnabled numGPUs sshPortInHost g mountOptionsStr w
         = (Inl err, w')"
      "r = Return ([], [], Some err)"
      "newEntries w w' = es" "\<forall>(a, b, e) \<in> set es. isGetFreePort e"
  | (built) config hostConfig w1 es u v resp cerr rest where
      "buildSpec c p tag name buildContext gpuEnabled numGPUs sshPortInHost g mountOptionsStr w
         = (Inr (config, hostConfig), w1)"
      "runContainer c ctx name timeout config hostConfig w1 = (r, w')"
      "newEntries w w1 = es" "\<forall>(a, b, e) \<in> set es. isGetFreePort e"
      "newEntries w w' = es @ (u, v, EvCreate ctx config hostConfig name resp cerr) # rest"
      "\<forall>(a, b, e) \<in> set rest. (\<exists>serr. e = EvStart ctx (ID resp) serr) \<or> isInspect e"
      "\<And>a b cx cid err. (a, b, EvStart cx cid (Some err)) \<in> set rest \<Longrightarrow>
         r = Return ([], [], Some
           (if Contains (Error (UnwrapAll err)) ''port is already allocated''
            then New ''jupyter port is already allocated in the host''
            else Wrap err ''failed to run the container''))"
proof -
  obtain b w1 where build: "buildSpec c p tag name buildContext gpuEnabled numGPUs
      sshPortInHost g mountOptionsStr w = (b, w1)"
    by (metis surj_pair)
  from buildSpec_trace [OF build] obtain es where
    es: "trace w1 = trace w @ es" "\<forall>(a, b, e) \<in> set es. isGetFreePort e"
    by auto
  show thesis
  proof (cases b)
    case (Inl err)
    with run build have "w' = w1" "r = Return ([], [], Some err)"
      by (simp_all add: StartEnvd_def)
    with build Inl es show thesis
      by (intro failed [of err es]) (simp_all add: newEntries_append)
  next
    case (Inr x)
    then obtain config hostConfig where x: "b = Inr (config, hostConfig)" by (cases x) auto
    with run build have rc: "runContainer c ctx name timeout config hostConfig w1 = (r, w')"
      by (simp add: StartEnvd_def)
    show thesis
    proof (rule runContainer_trace [OF rc])
      fix u v resp cerr rest
      assume tr: "trace w' = trace w1 @ (u, v, EvCreate ctx config hostConfig name resp cerr) # rest"
        and rest: "\<forall>(a, b, e) \<in> set rest. (\<exists>serr. e = EvStart ctx (ID resp) serr) \<or> isInspect e"
        and st: "\<And>a b cx cid err. (a, b, EvStart cx cid (Some err)) \<in> set rest \<Longrightarrow>
           r = Return ([], [], Some
             (if Contains (Error (UnwrapAll err)) ''port is already allocated''
              then New ''jupyter port is already allocated in the host''
              else Wrap err ''failed to run the container''))"
      show thesis
      proof (rule built [of config hostConfig w1 es u v resp cerr rest])
        show "newEntries w w' = es @ (u, v, EvCreate ctx config hostConfig name resp cerr) # rest"
          using tr es by (simp add: newEntries_append)
        show "\<And>a b cx cid err. (a, b, EvStart cx cid (Some err)) \<in> set rest \<Longrightarrow>
           r = Return ([], [], Some
             (if Contains (Error (UnwrapAll err)) ''port is already allocated''
              then New ''jupyter port is already allocated in the host''
              else Wrap err ''failed to run the container''))"
          by (rule st)
      qed (use build x rc es rest in \<open>simp_all add: newEntries_append\<close>)
    qed
  qed
qed

lemma Base_proj: "Base ''/proj'' = ''proj''"
  by (simp add: Base_def stripSlashes.simps)

lemmas start_simps = StartEnvd_def buildSpec_def runContainer_def servicePort_def
  bindPort_def natPort_def Itoa_def digits.simps digitChar_def Clean_def localhost_def
  TypeBind_def deviceRequests_def envd_def noServices_def Base_def stripSlashes.simps

lemma isGetFreePort_not_isCreate: "isGetFreePort e \<Longrightarrow> \<not> isCreate e"
  by (cases e) auto

lemma isInspect_not_isCreate: "isInspect e \<Longrightarrow> \<not> isCreate e"
  by (cases e) auto

lemma isInspect_not_isGetFreePort: "isInspect e \<Longrightarrow> \<not> isGetFreePort e"
  by (cases e) auto

lemma createdOf_entries_none:
  "\<forall>(a, b, e) \<in> set es. \<not> isCreate e \<Longrightarrow>
     createdOf (map (\<lambda>(issued, answered, e). e) es) = []"
  by (rule createdOf_none) auto

lemma allocatedOf_entries_none:
  "\<forall>(a, b, e) \<in> set es. \<not> isGetFreePort e \<Longrightarrow>
     allocatedOf (map (\<lambda>(issued, answered, e). e) es) = []"
  by (rule allocatedOf_none) auto

lemma StartEnvd_created_eq:
  fixes c :: "'h host"
  assumes run: "StartEnvd c p ctx tag name buildContext gpuEnabled numGPUs sshPortInHost g
      timeout mountOptionsStr w = (r, w')"
  shows "created w w' =
    (case fst (buildSpec c p tag name buildContext gpuEnabled numGPUs sshPortInHost g
        mountOptionsStr w) of Inl err \<Rightarrow> [] | Inr spec \<Rightarrow> [spec])"
  using run
proof (cases rule: StartEnvd_cases)
  case (failed err es)
  from failed(4) have "createdOf (map (\<lambda>(issued, answered, e). e) es) = []"
    by (intro createdOf_entries_none) (auto dest: isGetFreePort_not_isCreate)
  with failed show ?thesis by (simp add: created_def newEvents_def)
next
  case (built config hostConfig w1 es u v resp cerr rest)
  from built(4) have 1: "createdOf (map (\<lambda>(issued, answered, e). e) es) = []"
    by (intro createdOf_entries_none) (auto dest: isGetFreePort_not_isCreate)
  from built(6) have 2: "createdOf (map (\<lambda>(issued, answered, e). e) rest) = []"
    by (intro createdOf_entries_none) (auto dest: isInspect_not_isCreate)
  from built(1,5) 1 2 show ?thesis
    by (simp add: created_def newEvents_def createdOf_append)
qed

lemma StartEnvd_created:
  fixes c :: "'h host"
  assumes run: "StartEnvd c p ctx tag name buildContext gpuEnabled numGPUs sshPortInHost g
      timeout mountOptionsStr w = (r, w')"
    and spec: "(config, hostConfig) \<in> set (created w w')"
  shows "fst (buildSpec c p tag name buildContext gpuEnabled numGPUs sshPortInHost g
      mountOptionsStr w) = Inr (config, hostConfig)"
  using spec unfolding StartEnvd_created_eq [OF run] by (auto split: sum.splits)

text \<open>
  C7. The specification \<open>StartEnvd\<close> hands to \<^verbatim>\<open>ContainerCreate\<close> has, for every number of
  GPUs (also a negative one), exactly one device request when the GPU is enabled, with
  the driver \<open>nvidia\<close>, the eight capabilities and that number as the count, and no device
  request at all when the GPU is not enabled.
\<close>

theorem StartEnvd_device_requests:
  fixes c :: "'h host"
  assumes run: "StartEnvd c p ctx tag name buildContext gpuEnabled numGPUs sshPortInHost g
      timeout mountOptionsStr w = (r, w')"
    and spec: "(config, hostConfig) \<in> set (created w w')"
  shows "DeviceRequests hostConfig =
    (if gpuEnabled
     then [\<lparr>Driver = ''nvidia'', Count = numGPUs,
            Capabilities = [[''gpu''], [''nvidia''], [''compute''], [''compat32''],
              [''graphics''], [''utility''], [''video''], [''display'']]\<rparr>]
     else [])"
proof -
  obtain w1 where "buildSpec c p tag name buildContext gpuEnabled numGPUs sshPortInHost g
      mountOptionsStr w = (Inr (config, hostConfig), w1)"
    using StartEnvd_created [OF run spec] by (metis prod.collapse)
  then show ?thesis
    by (rule buildSpec_Inr) (simp add: deviceRequests_def)
qed

lemma hd_created:
  "created w w' \<noteq> [] \<Longrightarrow>
     (fst (hd (created w w')), snd (hd (created w w'))) \<in> set (created w w')"
  by simp

text \<open>
  With the GPU enabled and two GPUs, and with the GPU not enabled: \<^verbatim>\<open>ContainerCreate\<close> is
  called in both cases (the host of the script cannot be reached, so the call fails).
\<close>

theorem StartEnvd_device_requests_witness:
  "DeviceRequests (snd (hd (created (start [])
      (snd (StartEnvd scripted envd None ''img'' ''c1'' ''/proj'' True 2 2222 noServices
         5000000000 [] (start []))))))
     = [\<lparr>Driver = ''nvidia'', Count = 2,
         Capabilities = [[''gpu''], [''nvidia''], [''compute''], [''compat32''],
           [''graphics''], [''utility''], [''video''], [''display'']]\<rparr>] \<and>
   DeviceRequests (snd (hd (created (start [])
      (snd (StartEnvd scripted envd None ''img'' ''c1'' ''/proj'' False 0 2222 noServices
         5000000000 [] (start []))))))
     = []"
proof -
  have 1: "created (start [])
      (snd (StartEnvd scripted envd None ''img'' ''c1'' ''/proj'' gpu n 2222 noServices
         5000000000 [] (start []))) \<noteq> []" for gpu n
    unfolding StartEnvd_created_eq [OF surjective_pairing]
    by (simp add: buildSpec_def servicePort_def noServices_def Let_def)
  show ?thesis
    using StartEnvd_device_requests [OF surjective_pairing hd_created [OF 1 [of True 2]]]
      StartEnvd_device_requests [OF surjective_pairing hd_created [OF 1 [of False 0]]]
    by simp
qed

lemma Join_example: "Join [''/home/envd'', ''proj''] = ''/home/envd/proj''"
  by (simp add: Clean_def)

lemma Itoa_example: "Itoa 2222 = ''2222''"
  by (simp add: Itoa_def digits.simps digitChar_def)

text \<open>
  C9. For every build context, the working directory of the specification handed to
  \<^verbatim>\<open>ContainerCreate\<close> is the base name of the build context (what \<^verbatim>\<open>fileutil.Base\<close>
  gives) joined under \<^verbatim>\<open>/home/envd\<close>, and the last mount, which is always there, binds
  the build context to that directory. In the example of the specification (build
  context \<^verbatim>\<open>/proj\<close> with base name \<^verbatim>\<open>proj\<close>, ssh port 2222 in the host, no service, no
  GPU, the one mount option \<^verbatim>\<open>/host/data:/data\<close>) the working directory is
  \<^verbatim>\<open>/home/envd/proj\<close>, there are exactly the two mounts, the one binding of the ssh port
  to 127.0.0.1:2222, no device request and no exposed port.
\<close>

theorem StartEnvd_working_directory:
  fixes c :: "'h host"
  assumes run: "StartEnvd c p ctx tag name buildContext gpuEnabled numGPUs sshPortInHost g
      timeout mountOptionsStr w = (r, w')"
    and spec: "(config, hostConfig) \<in> set (created w w')"
  shows "WorkingDir config = Join [''/home/envd'', fileutilBase p buildContext] \<and>
    Mounts hostConfig \<noteq> [] \<and>
    last (Mounts hostConfig) =
      \<lparr>Type = ''bind'', Source = buildContext, Target = WorkingDir config\<rparr> \<and>
    (buildContext = ''/proj'' \<and> fileutilBase p ''/proj'' = ''proj'' \<and> sshPortInHost = 2222 \<and>
     JupyterConfig g = None \<and> RStudioServerConfig g = None \<and> \<not> gpuEnabled \<and>
     mountOptionsStr = [''/host/data:/data''] \<longrightarrow>
       WorkingDir config = ''/home/envd/proj'' \<and>
       Mounts hostConfig =
         [\<lparr>Type = ''bind'', Source = ''/host/data'', Target = ''/data''\<rparr>,
          \<lparr>Type = ''bind'', Source = ''/proj'', Target = ''/home/envd/proj''\<rparr>] \<and>
       PortBindings hostConfig =
         [natPort (SSHPortInContainer p) \<mapsto> [\<lparr>HostIP = ''127.0.0.1'', HostPort = ''2222''\<rparr>]] \<and>
       DeviceRequests hostConfig = [] \<and>
       ExposedPorts config = {})"
proof -
  obtain w1 where "buildSpec c p tag name buildContext gpuEnabled numGPUs sshPortInHost g
      mountOptionsStr w = (Inr (config, hostConfig), w1)"
    using StartEnvd_created [OF run spec] by (metis prod.collapse)
  then show ?thesis
  proof (rule buildSpec_Inr)
    fix ms jp rp
    assume ms: "mountOptions mountOptionsStr = Inr ms"
      and config: "config = \<lparr>Image = tag, User = ''envd'',
        ExposedPorts =
          (if JupyterConfig g \<noteq> None then {natPort (JupyterPortInContainer p)} else {}) \<union>
          (if RStudioServerConfig g \<noteq> None then {natPort (RStudioServerPortInContainer p)} else {}),
        WorkingDir = Join [''/home/envd'', fileutilBase p buildContext],
        Labels = labels p name g sshPortInHost jp rp\<rparr>"
      and hostConfig: "hostConfig = \<lparr>PortBindings =
          (\<lambda>key. if RStudioServerConfig g \<noteq> None \<and> key = natPort (RStudioServerPortInContainer p)
             then Some (binding rp)
             else if JupyterConfig g \<noteq> None \<and> key = natPort (JupyterPortInContainer p)
             then Some (binding jp)
             else if key = natPort (SSHPortInContainer p) then Some (binding sshPortInHost)
             else None),
        Mounts = ms @ [\<lparr>Type = TypeBind, Source = buildContext,
          Target = Join [''/home/envd'', fileutilBase p buildContext]\<rparr>],
        DeviceRequests = (if gpuEnabled then deviceRequests numGPUs else [])\<rparr>"
    have general: "WorkingDir config = Join [''/home/envd'', fileutilBase p buildContext] \<and>
      Mounts hostConfig \<noteq> [] \<and>
      last (Mounts hostConfig) =
        \<lparr>Type = ''bind'', Source = buildContext, Target = WorkingDir config\<rparr>"
      using config hostConfig by (simp add: TypeBind_def)
    have example: "WorkingDir config = ''/home/envd/proj'' \<and>
       Mounts hostConfig =
         [\<lparr>Type = ''bind'', Source = ''/host/data'', Target = ''/data''\<rparr>,
          \<lparr>Type = ''bind'', Source = ''/proj'', Target = ''/home/envd/proj''\<rparr>] \<and>
       PortBindings hostConfig =
         [natPort (SSHPortInContainer p) \<mapsto> [\<lparr>HostIP = ''127.0.0.1'', HostPort = ''2222''\<rparr>]] \<and>
       DeviceRequests hostConfig = [] \<and>
       ExposedPorts config = {}"
      if "buildContext = ''/proj''" "fileutilBase p ''/proj'' = ''proj''" "sshPortInHost = 2222"
        "JupyterConfig g = None" "RStudioServerConfig g = None" "\<not> gpuEnabled"
        "mountOptionsStr = [''/host/data:/data'']"
    proof -
      from ms that have "ms = [\<lparr>Type = ''bind'', Source = ''/host/data'', Target = ''/data''\<rparr>]"
        by (simp add: TypeBind_def)
      moreover from that have "Join [''/home/envd'', fileutilBase p buildContext] = ''/home/envd/proj''"
        by (simp only: Join_example)
      moreover have "binding 2222 = [\<lparr>HostIP = ''127.0.0.1'', HostPort = ''2222''\<rparr>]"
        by (simp only: binding_def localhost_def Itoa_example)
      ultimately have "config = \<lparr>Image = tag, User = ''envd'', ExposedPorts = {},
          WorkingDir = ''/home/envd/proj'', Labels = labels p name g sshPortInHost jp rp\<rparr>"
        and "hostConfig = \<lparr>PortBindings =
            [natPort (SSHPortInContainer p) \<mapsto> [\<lparr>HostIP = ''127.0.0.1'', HostPort = ''2222''\<rparr>]],
          Mounts = [\<lparr>Type = ''bind'', Source = ''/host/data'', Target = ''/data''\<rparr>,
            \<lparr>Type = ''bind'', Source = ''/proj'', Target = ''/home/envd/proj''\<rparr>],
          DeviceRequests = []\<rparr>"
        using config hostConfig that by (simp_all add: TypeBind_def fun_eq_iff del: Join.simps)
      then show ?thesis by simp
    qed
    from general show ?thesis
      by (intro conjI impI; (elim conjE)?) (simp_all only: example)
  qed
qed

text \<open>
  The example, with the example values of the parameters: \<^verbatim>\<open>ContainerCreate\<close> is called
  with this specification.
\<close>

theorem StartEnvd_working_directory_witness:
  "WorkingDir (fst (hd (created (start [])
      (snd (StartEnvd scripted envd None ''img'' ''c1'' ''/proj'' False 0 2222 noServices
         5000000000 [''/host/data:/data''] (start []))))))
     = ''/home/envd/proj'' \<and>
   Mounts (snd (hd (created (start [])
      (snd (StartEnvd scripted envd None ''img'' ''c1'' ''/proj'' False 0 2222 noServices
         5000000000 [''/host/data:/data''] (start []))))))
     = [\<lparr>Type = ''bind'', Source = ''/host/data'', Target = ''/data''\<rparr>,
        \<lparr>Type = ''bind'', Source = ''/proj'', Target = ''/home/envd/proj''\<rparr>] \<and>
   PortBindings (snd (hd (created (start [])
      (snd (StartEnvd scripted envd None ''img'' ''c1'' ''/proj'' False 0 2222 noServices
         5000000000 [''/host/data:/data''] (start [])))))) ''2222/tcp''
     = Some [\<lparr>HostIP = ''127.0.0.1'', HostPort = ''2222''\<rparr>]"
proof -
  have 1: "created (start [])
      (snd (StartEnvd scripted envd None ''img'' ''c1'' ''/proj'' False 0 2222 noServices
         5000000000 [''/host/data:/data''] (start []))) \<noteq> []"
    unfolding StartEnvd_created_eq [OF surjective_pairing]
    by (simp add: buildSpec_def servicePort_def noServices_def Let_def)
  have 2: "''/proj'' = ''/proj'' \<and> fileutilBase envd ''/proj'' = ''proj'' \<and> (2222 :: int) = 2222 \<and>
     JupyterConfig noServices = None \<and> RStudioServerConfig noServices = None \<and> \<not> False \<and>
     [''/host/data:/data''] = [''/host/data:/data'']"
    by (simp add: envd_def noServices_def Base_proj)
  have 3: "natPort (SSHPortInContainer envd) = ''2222/tcp''"
    by (simp add: envd_def natPort_def Itoa_def digits.simps digitChar_def)
  from StartEnvd_working_directory [OF surjective_pairing hd_created [OF 1],
      THEN conjunct2, THEN conjunct2, THEN conjunct2, rule_format, OF 2]
  show ?thesis unfolding 3 by simp
qed

text \<open>
  C8. When the host fails to start the container that \<open>StartEnvd\<close> created, the result
  is one fixed error that says a port is already allocated in the host when the cause
  of the failure says so, and the failure wrapped as "failed to run the container" for
  every other cause. The first is a leaf, the second a wrapped error: they are never
  the same.
\<close>

theorem StartEnvd_port_conflict:
  fixes c :: "'h host"
  assumes run: "StartEnvd c p ctx tag name buildContext gpuEnabled numGPUs sshPortInHost g
      timeout mountOptionsStr w = (r, w')"
    and start: "(issued, answered, EvStart cx cid (Some err)) \<in> set (newEntries w w')"
  shows "r = Return ([], [], Some
    (if Contains (Error (UnwrapAll err)) ''port is already allocated''
     then New ''jupyter port is already allocated in the host''
     else Wrap err ''failed to run the container''))"
  using run
proof (cases rule: StartEnvd_cases)
  case (failed e es)
  with start show ?thesis by auto
next
  case (built config hostConfig w1 es u v resp cerr rest)
  from start built(3,4,5) have "(issued, answered, EvStart cx cid (Some err)) \<in> set rest"
    by auto
  then show ?thesis by (rule built(7))
qed

text \<open>
  The container is created; the host then refuses to start it because the port is
  taken, and, in the second script, because it cannot be reached.
\<close>

theorem StartEnvd_port_conflict_witness:
  "fst (StartEnvd scripted envd None ''img'' ''c1'' ''/proj'' False 0 2222 noServices 5000000000 []
      (start [(Created \<lparr>ID = ''abc'', Warnings = []\<rparr> None, 0), (Answer (Some portTaken), 0)]))
     = Return ([], [], Some (New ''jupyter port is already allocated in the host'')) \<and>
   fst (StartEnvd scripted envd None ''img'' ''c1'' ''/proj'' False 0 2222 noServices 5000000000 []
      (start [(Created \<lparr>ID = ''abc'', Warnings = []\<rparr> None, 0)]))
     = Return ([], [], Some (Wrap unreachable ''failed to run the container''))"
proof -
  let ?s1 = "[(Created \<lparr>ID = ''abc'', Warnings = []\<rparr> None, 0), (Answer (Some portTaken), 0)]"
  let ?s2 = "[(Created \<lparr>ID = ''abc'', Warnings = []\<rparr> None, 0)]"
  have 1: "(0, 0, EvStart None ''abc'' (Some portTaken)) \<in> set (newEntries (start ?s1)
      (snd (StartEnvd scripted envd None ''img'' ''c1'' ''/proj'' False 0 2222 noServices
        5000000000 [] (start ?s1))))"
    by (simp add: start_simps scripted_simps Let_def portTaken_def)
  have 2: "(0, 0, EvStart None ''abc'' (Some unreachable)) \<in> set (newEntries (start ?s2)
      (snd (StartEnvd scripted envd None ''img'' ''c1'' ''/proj'' False 0 2222 noServices
        5000000000 [] (start ?s2))))"
    by (simp add: start_simps scripted_simps Let_def unreachable_def)
  show ?thesis
    using StartEnvd_port_conflict [OF surjective_pairing 1]
      StartEnvd_port_conflict [OF surjective_pairing 2]
    by (simp add: portTaken_def unreachable_def)
qed

subsection \<open>Mount options\<close>

lemma Split_not_Nil: "Split s sep \<noteq> []"
  by (induction s) (auto simp: Let_def)

lemma length_Split: "length (Split s sep) = Suc (count_list s sep)"
proof (induction s)
  case Nil
  show ?case by simp
next
  case (Cons ch s)
  with Split_not_Nil [of s sep] show ?case
    by (cases "Split s sep") (auto simp: Let_def)
qed

lemma Split_none: "count_list s sep = 0 \<Longrightarrow> Split s sep = [s]"
  by (induction s) (auto simp: Let_def split: if_splits)

lemma Split_one:
  "count_list s sep = 1 \<Longrightarrow>
     Split s sep = [takeWhile (\<lambda>ch. ch \<noteq> sep) s, tl (dropWhile (\<lambda>ch. ch \<noteq> sep) s)]"
proof (induction s)
  case Nil
  then show ?case by simp
next
  case (Cons ch s)
  show ?case
  proof (cases "ch = sep")
    case True
    with Cons.prems have "count_list s sep = 0" by simp
    with True show ?thesis by (simp add: Split_none)
  next
    case False
    with Cons show ?thesis by (simp add: Let_def)
  qed
qed

lemma mountOptions_valid:
  "\<forall>option \<in> set opts. colons option = 1 \<Longrightarrow> mountOptions opts = Inr (map mountOf opts)"
  by (induction opts)
    (auto simp: Let_def colons_def length_Split Split_one mountOf_def TypeBind_def)

lemma mountOptions_invalid:
  "find (\<lambda>option. colons option \<noteq> 1) opts = Some bad \<Longrightarrow>
     mountOptions opts = Inl (New (''Invalid mount options '' @ bad))"
  by (induction opts) (auto simp: Let_def colons_def length_Split split: if_splits)

text \<open>
  C2, as the code has it. An entry is accepted when it has exactly one colon. When some
  entry has none or more than one, \<open>StartEnvd\<close> returns the error "Invalid mount options"
  followed by the first such entry, and calls nothing. When every entry has exactly
  one, each entry becomes one bind mount, from the text before the colon to the text
  after it, either of which may be empty; the mounts are in the order of the entries
  and the mount of the build context comes after all of them.
\<close>

theorem StartEnvd_mount_options:
  fixes c :: "'h host"
  assumes run: "StartEnvd c p ctx tag name buildContext gpuEnabled numGPUs sshPortInHost g
      timeout mountOptionsStr w = (r, w')"
  shows "(\<forall>bad. find (\<lambda>option. colons option \<noteq> 1) mountOptionsStr = Some bad \<longrightarrow>
       r = Return ([], [], Some (New (''Invalid mount options '' @ bad))) \<and> w' = w) \<and>
    ((\<forall>option \<in> set mountOptionsStr. colons option = 1) \<longrightarrow>
       (\<forall>(config, hostConfig) \<in> set (created w w').
          Mounts hostConfig = map mountOf mountOptionsStr @
            [\<lparr>Type = ''bind'', Source = buildContext, Target = WorkingDir config\<rparr>]))"
proof -
  have invalid: "r = Return ([], [], Some (New (''Invalid mount options '' @ bad))) \<and> w' = w"
    if "find (\<lambda>option. colons option \<noteq> 1) mountOptionsStr = Some bad" for bad
  proof -
    from that have mo: "mountOptions mountOptionsStr = Inl (New (''Invalid mount options '' @ bad))"
      by (rule mountOptions_invalid)
    from run show ?thesis
      by (simp add: StartEnvd_def buildSpec_mount_error [OF mo])
  qed
  have valid: "Mounts hostConfig = map mountOf mountOptionsStr @
        [\<lparr>Type = ''bind'', Source = buildContext, Target = WorkingDir config\<rparr>]"
    if valid: "\<forall>option \<in> set mountOptionsStr. colons option = 1"
      and spec: "(config, hostConfig) \<in> set (created w w')" for config hostConfig
  proof -
    obtain w1 where "buildSpec c p tag name buildContext gpuEnabled numGPUs sshPortInHost g
        mountOptionsStr w = (Inr (config, hostConfig), w1)"
      using StartEnvd_created [OF run spec] by (metis prod.collapse)
    then show ?thesis
      by (rule buildSpec_Inr) (simp add: mountOptions_valid [OF valid] TypeBind_def)
  qed
  from invalid valid show ?thesis by auto
qed

text \<open>
  Three entries of which the second has no colon and the third has two: the error names
  the second. One entry with one colon: its mount, then the mount of the build context.
\<close>

theorem StartEnvd_mount_options_witness:
  "fst (StartEnvd scripted envd None ''img'' ''c1'' ''/proj'' False 0 2222 noServices 5000000000
      [''/host/data:/data'', ''/data'', ''/a:/b:ro''] (start []))
     = Return ([], [], Some (New ''Invalid mount options /data'')) \<and>
   Mounts (snd (hd (created (start [])
      (snd (StartEnvd scripted envd None ''img'' ''c1'' ''/proj'' False 0 2222 noServices
         5000000000 [''/host/data:/data''] (start []))))))
     = [\<lparr>Type = ''bind'', Source = ''/host/data'', Target = ''/data''\<rparr>,
        \<lparr>Type = ''bind'', Source = ''/proj'', Target = WorkingDir (fst (hd (created (start [])
          (snd (StartEnvd scripted envd None ''img'' ''c1'' ''/proj'' False 0 2222 noServices
             5000000000 [''/host/data:/data''] (start []))))))\<rparr>]"
proof -
  have bad: "find (\<lambda>option. colons option \<noteq> 1) [''/host/data:/data'', ''/data'', ''/a:/b:ro'']
      = Some ''/data''"
    by (simp add: colons_def)
  have good: "\<forall>option \<in> set [''/host/data:/data'']. colons option = 1"
    by (simp add: colons_def)
  have 1: "created (start [])
      (snd (StartEnvd scripted envd None ''img'' ''c1'' ''/proj'' False 0 2222 noServices
         5000000000 [''/host/data:/data''] (start []))) \<noteq> []"
    unfolding StartEnvd_created_eq [OF surjective_pairing]
    by (simp add: buildSpec_def servicePort_def noServices_def Let_def)
  from StartEnvd_mount_options [OF surjective_pairing, THEN conjunct1, rule_format, OF bad,
      where c = scripted and p = envd and ctx = None and tag = "''img''" and name = "''c1''"
        and buildContext = "''/proj''" and gpuEnabled = False and numGPUs = 0
        and sshPortInHost = 2222 and g = noServices and timeout = 5000000000 and w = "start []"]
    StartEnvd_mount_options [OF surjective_pairing, THEN conjunct2, rule_format,
      OF good [rule_format] hd_created [OF 1]]
  show ?thesis by (simp add: mountOf_def case_prod_unfold)
qed

text \<open>
  C2, as the specification has it, fails both ways. The entry \<^verbatim>\<open>/host/data:\<close> does not
  split into two non-empty segments, yet no error is returned: the container is
  created with a mount whose target is empty, started, and \<open>StartEnvd\<close> succeeds. The
  entry \<^verbatim>\<open>/a:/b:ro\<close> splits on its first colon into the two non-empty segments \<^verbatim>\<open>/a\<close>
  and \<^verbatim>\<open>/b:ro\<close>, yet it is refused.
\<close>

theorem StartEnvd_mount_options_counterexample:
  "fst (StartEnvd scripted envd None ''img'' ''c1'' ''/proj'' False 0 2222 noServices 5000000000
      [''/host/data:''] (start up))
     = Return (''/c1'', ''172.17.0.2'', None) \<and>
   Mounts (snd (hd (created (start up)
      (snd (StartEnvd scripted envd None ''img'' ''c1'' ''/proj'' False 0 2222 noServices
         5000000000 [''/host/data:''] (start up))))))
     = [\<lparr>Type = ''bind'', Source = ''/host/data'', Target = []\<rparr>,
        \<lparr>Type = ''bind'', Source = ''/proj'', Target = ''/home/envd/proj''\<rparr>] \<and>
   fst (StartEnvd scripted envd None ''img'' ''c1'' ''/proj'' False 0 2222 noServices 5000000000
      [''/a:/b:ro''] (start up))
     = Return ([], [], Some (New ''Invalid mount options /a:/b:ro''))"
  by (simp add: start_simps scripted_simps wait_simps created_def up_def inspected_def)

subsection \<open>Port bindings\<close>

lemma digit_cases: "d < 10 \<Longrightarrow> d \<in> {0, 1, 2, 3, 4, 5, 6, 7, 8, 9 :: nat}"
  by auto

lemma digitValue_digitChar: "d < 10 \<Longrightarrow> digitValue (digitChar d) = d"
  by (drule digit_cases) (auto simp: digitValue_def digitChar_def)

lemma digitChar_not_minus: "d < 10 \<Longrightarrow> digitChar d \<noteq> CHR ''-''"
  by (drule digit_cases) (auto simp: digitChar_def)

lemma decimalValue_snoc: "decimalValue (s @ [ch]) = 10 * decimalValue s + digitValue ch"
  by (simp add: decimalValue_def)

lemma decimalValue_digits: "decimalValue (digits n) = n"
proof (induction n rule: digits.induct)
  case (1 n)
  show ?case
  proof (cases "n < 10")
    case True
    then show ?thesis
      by (subst digits.simps) (simp add: decimalValue_def digitValue_digitChar)
  next
    case False
    with "1.IH" have "decimalValue (digits (n div 10)) = n div 10" by simp
    with False show ?thesis
      by (subst digits.simps) (simp add: decimalValue_snoc digitValue_digitChar)
  qed
qed

lemma digits_inject: "digits m = digits n \<Longrightarrow> m = n"
  by (metis decimalValue_digits)

lemma hd_digits: "digits n \<noteq> [] \<and> hd (digits n) \<noteq> CHR ''-''"
proof (induction n rule: digits.induct)
  case (1 n)
  show ?case
  proof (cases "n < 10")
    case True
    then show ?thesis
      by (subst (1 2) digits.simps) (simp add: digitChar_not_minus)
  next
    case False
    with "1.IH" show ?thesis
      by (subst (1 2) digits.simps) simp
  qed
qed

lemma Itoa_inject: "Itoa a = Itoa b \<longleftrightarrow> a = b"
proof
  assume eq: "Itoa a = Itoa b"
  show "a = b"
  proof (cases "a < 0"; cases "b < 0")
    assume "a < 0" "b < 0"
    with eq have "nat (- a) = nat (- b)" by (simp add: Itoa_def digits_inject)
    with \<open>a < 0\<close> \<open>b < 0\<close> show ?thesis by simp
  next
    assume "a < 0" "\<not> b < 0"
    with eq hd_digits [of "nat b"] show ?thesis
      by (cases "digits (nat b)") (auto simp: Itoa_def)
  next
    assume "\<not> a < 0" "b < 0"
    with eq hd_digits [of "nat a"] show ?thesis
      by (cases "digits (nat a)") (auto simp: Itoa_def)
  next
    assume "\<not> a < 0" "\<not> b < 0"
    with eq have "nat a = nat b" by (simp add: Itoa_def digits_inject)
    with \<open>\<not> a < 0\<close> \<open>\<not> b < 0\<close> show ?thesis by simp
  qed
qed simp

lemma natPort_inject: "natPort a = natPort b \<longleftrightarrow> a = b"
  by (simp add: natPort_def Itoa_inject)

lemma binding_inject: "binding a = binding b \<longleftrightarrow> a = b"
  by (simp add: binding_def Itoa_inject)

lemma allocatedOf_entries_GetFreePort:
  "allocatedOf (map (\<lambda>(issued, answered, e). e)
      ((if J then [(a, b, EvGetFreePort jp None)] else []) @
       (if R then [(b', d, EvGetFreePort rp None)] else [])))
     = (if J then [jp] else []) @ (if R then [rp] else [])"
  by simp

text \<open>
  C6, as the code has it. The specification handed to \<^verbatim>\<open>ContainerCreate\<close> binds, on the
  loopback address, the ssh port of the container to the port the caller gave and the
  port of each declared service to the port the allocator returned for it (\<open>jp\<close>, \<open>rp\<close>:
  the ports allocated during the call, in this order), and nothing else. The ports of
  the host are not compared with each other: when the three ports in the container
  differ, so that no binding overwrites another, two bindings have the same port of
  the host exactly when the caller's port and the allocated ports coincide. When no
  specification is built although every mount option is well-formed, it is because the
  allocator itself failed, and that failure is returned as "failed to get a free port".
\<close>

theorem StartEnvd_port_bindings:
  fixes c :: "'h host"
  assumes run: "StartEnvd c p ctx tag name buildContext gpuEnabled numGPUs sshPortInHost g
      timeout mountOptionsStr w = (r, w')"
  shows "(\<forall>(config, hostConfig) \<in> set (created w w'). \<exists>jp rp.
       allocated w w' = (if JupyterConfig g \<noteq> None then [jp] else []) @
         (if RStudioServerConfig g \<noteq> None then [rp] else []) \<and>
       PortBindings hostConfig =
         (\<lambda>key. if RStudioServerConfig g \<noteq> None \<and> key = natPort (RStudioServerPortInContainer p)
            then Some (binding rp)
            else if JupyterConfig g \<noteq> None \<and> key = natPort (JupyterPortInContainer p)
            then Some (binding jp)
            else if key = natPort (SSHPortInContainer p) then Some (binding sshPortInHost)
            else None) \<and>
       (distinct [SSHPortInContainer p, JupyterPortInContainer p, RStudioServerPortInContainer p] \<longrightarrow>
          hostPortOf hostConfig (SSHPortInContainer p) = Some (Itoa sshPortInHost) \<and>
          (JupyterConfig g \<noteq> None \<longrightarrow>
             hostPortOf hostConfig (JupyterPortInContainer p) = Some (Itoa jp) \<and>
             (hostPortOf hostConfig (JupyterPortInContainer p) =
                hostPortOf hostConfig (SSHPortInContainer p) \<longleftrightarrow> jp = sshPortInHost)) \<and>
          (RStudioServerConfig g \<noteq> None \<longrightarrow>
             hostPortOf hostConfig (RStudioServerPortInContainer p) = Some (Itoa rp) \<and>
             (hostPortOf hostConfig (RStudioServerPortInContainer p) =
                hostPortOf hostConfig (SSHPortInContainer p) \<longleftrightarrow> rp = sshPortInHost)) \<and>
          (JupyterConfig g \<noteq> None \<and> RStudioServerConfig g \<noteq> None \<longrightarrow>
             (hostPortOf hostConfig (JupyterPortInContainer p) =
                hostPortOf hostConfig (RStudioServerPortInContainer p) \<longleftrightarrow> jp = rp)))) \<and>
    (created w w' = [] \<and> (\<forall>option \<in> set mountOptionsStr. colons option = 1) \<longrightarrow>
       (\<exists>port e. EvGetFreePort port (Some e) \<in> set (newEvents w w') \<and>
          r = Return ([], [], Some (Wrap e ''failed to get a free port''))))"
  using run
proof (cases rule: StartEnvd_cases)
  case (failed err es)
  from failed(1) have none: "created w w' = []"
    using StartEnvd_created_eq [OF run] by simp
  have "\<exists>port e. EvGetFreePort port (Some e) \<in> set (newEvents w w') \<and>
          r = Return ([], [], Some (Wrap e ''failed to get a free port''))"
    if "\<forall>option \<in> set mountOptionsStr. colons option = 1"
  proof (rule buildSpec_Inl [OF failed(1) mountOptions_valid [OF that]])
    fix es' u v port e
    assume "trace w' = trace w @ es' @ [(u, v, EvGetFreePort port (Some e))]"
      and "err = Wrap e ''failed to get a free port''"
    with failed(2) show ?thesis
      by (intro exI [of _ port] exI [of _ e]) (simp add: newEvents_append)
  qed
  with none show ?thesis by simp
next
  case (built config hostConfig w1 es u v resp cerr rest)
  from built(1) have cr: "created w w' = [(config, hostConfig)]"
    using StartEnvd_created_eq [OF run] by simp
  from built(6) have rest: "allocatedOf (map (\<lambda>(issued, answered, e). e) rest) = []"
    by (intro allocatedOf_entries_none) (auto dest: isInspect_not_isGetFreePort)
  from built(1) show ?thesis
  proof (rule buildSpec_Inr)
    fix ms jp rp and wj :: "'h world"
    assume tr: "trace w1 = trace w @
        (if JupyterConfig g \<noteq> None then [(now w, now wj, EvGetFreePort jp None)] else []) @
        (if RStudioServerConfig g \<noteq> None then [(now wj, now w1, EvGetFreePort rp None)] else [])"
      and hostConfig: "hostConfig = \<lparr>PortBindings =
          (\<lambda>key. if RStudioServerConfig g \<noteq> None \<and> key = natPort (RStudioServerPortInContainer p)
             then Some (binding rp)
             else if JupyterConfig g \<noteq> None \<and> key = natPort (JupyterPortInContainer p)
             then Some (binding jp)
             else if key = natPort (SSHPortInContainer p) then Some (binding sshPortInHost)
             else None),
        Mounts = ms @ [\<lparr>Type = TypeBind, Source = buildContext,
          Target = Join [''/home/envd'', fileutilBase p buildContext]\<rparr>],
        DeviceRequests = (if gpuEnabled then deviceRequests numGPUs else [])\<rparr>"
    from tr built(3) have es: "es =
        (if JupyterConfig g \<noteq> None then [(now w, now wj, EvGetFreePort jp None)] else []) @
        (if RStudioServerConfig g \<noteq> None then [(now wj, now w1, EvGetFreePort rp None)] else [])"
      by (simp add: newEntries_append)
    have al: "allocated w w' = (if JupyterConfig g \<noteq> None then [jp] else []) @
         (if RStudioServerConfig g \<noteq> None then [rp] else [])"
      unfolding allocated_def newEvents_def built(5) map_append allocatedOf_append es
        allocatedOf_entries_GetFreePort
      using rest by simp
    have pb: "PortBindings hostConfig =
         (\<lambda>key. if RStudioServerConfig g \<noteq> None \<and> key = natPort (RStudioServerPortInContainer p)
            then Some (binding rp)
            else if JupyterConfig g \<noteq> None \<and> key = natPort (JupyterPortInContainer p)
            then Some (binding jp)
            else if key = natPort (SSHPortInContainer p) then Some (binding sshPortInHost)
            else None)"
      using hostConfig by simp
    have hp: "hostPortOf hostConfig (SSHPortInContainer p) = Some (Itoa sshPortInHost) \<and>
          (JupyterConfig g \<noteq> None \<longrightarrow>
             hostPortOf hostConfig (JupyterPortInContainer p) = Some (Itoa jp) \<and>
             (hostPortOf hostConfig (JupyterPortInContainer p) =
                hostPortOf hostConfig (SSHPortInContainer p) \<longleftrightarrow> jp = sshPortInHost)) \<and>
          (RStudioServerConfig g \<noteq> None \<longrightarrow>
             hostPortOf hostConfig (RStudioServerPortInContainer p) = Some (Itoa rp) \<and>
             (hostPortOf hostConfig (RStudioServerPortInContainer p) =
                hostPortOf hostConfig (SSHPortInContainer p) \<longleftrightarrow> rp = sshPortInHost)) \<and>
          (JupyterConfig g \<noteq> None \<and> RStudioServerConfig g \<noteq> None \<longrightarrow>
             (hostPortOf hostConfig (JupyterPortInContainer p) =
                hostPortOf hostConfig (RStudioServerPortInContainer p) \<longleftrightarrow> jp = rp))"
      if "distinct [SSHPortInContainer p, JupyterPortInContainer p, RStudioServerPortInContainer p]"
      using that unfolding hostPortOf_def pb
      by (auto simp: natPort_inject binding_def Itoa_inject)
    let ?B = "\<lambda>jp rp.
       allocated w w' = (if JupyterConfig g \<noteq> None then [jp] else []) @
         (if RStudioServerConfig g \<noteq> None then [rp] else []) \<and>
       PortBindings hostConfig =
         (\<lambda>key. if RStudioServerConfig g \<noteq> None \<and> key = natPort (RStudioServerPortInContainer p)
            then Some (binding rp)
            else if JupyterConfig g \<noteq> None \<and> key = natPort (JupyterPortInContainer p)
            then Some (binding jp)
            else if key = natPort (SSHPortInContainer p) then Some (binding sshPortInHost)
            else None) \<and>
       (distinct [SSHPortInContainer p, JupyterPortInContainer p, RStudioServerPortInContainer p] \<longrightarrow>
          hostPortOf hostConfig (SSHPortInContainer p) = Some (Itoa sshPortInHost) \<and>
          (JupyterConfig g \<noteq> None \<longrightarrow>
             hostPortOf hostConfig (JupyterPortInContainer p) = Some (Itoa jp) \<and>
             (hostPortOf hostConfig (JupyterPortInContainer p) =
                hostPortOf hostConfig (SSHPortInContainer p) \<longleftrightarrow> jp = sshPortInHost)) \<and>
          (RStudioServerConfig g \<noteq> None \<longrightarrow>
             hostPortOf hostConfig (RStudioServerPortInContainer p) = Some (Itoa rp) \<and>
             (hostPortOf hostConfig (RStudioServerPortInContainer p) =
                hostPortOf hostConfig (SSHPortInContainer p) \<longleftrightarrow> rp = sshPortInHost)) \<and>
          (JupyterConfig g \<noteq> None \<and> RStudioServerConfig g \<noteq> None \<longrightarrow>
             (hostPortOf hostConfig (JupyterPortInContainer p) =
                hostPortOf hostConfig (RStudioServerPortInContainer p) \<longleftrightarrow> jp = rp)))"
    have "?B jp rp"
      by (rule conjI [OF al], rule conjI [OF pb], rule impI, erule hp)
    then have "\<exists>jp rp. ?B jp rp"
      by (intro exI)
    with cr show ?thesis by simp
  qed
qed

text \<open>
  Both services declared; the allocator gives 40000 and then 40001. And an allocator
  that fails.
\<close>

theorem StartEnvd_port_bindings_witness:
  "hostPortOf (snd (hd (created (start ((Port 40000 None, 0) # (Port 40001 None, 0) # up))
      (snd (StartEnvd scripted envd None ''img'' ''c1'' ''/proj'' False 0 2222 bothServices
         5000000000 [] (start ((Port 40000 None, 0) # (Port 40001 None, 0) # up))))))) 2222
     = Some ''2222'' \<and>
   hostPortOf (snd (hd (created (start ((Port 40000 None, 0) # (Port 40001 None, 0) # up))
      (snd (StartEnvd scripted envd None ''img'' ''c1'' ''/proj'' False 0 2222 bothServices
         5000000000 [] (start ((Port 40000 None, 0) # (Port 40001 None, 0) # up))))))) 8888
     = Some ''40000'' \<and>
   hostPortOf (snd (hd (created (start ((Port 40000 None, 0) # (Port 40001 None, 0) # up))
      (snd (StartEnvd scripted envd None ''img'' ''c1'' ''/proj'' False 0 2222 bothServices
         5000000000 [] (start ((Port 40000 None, 0) # (Port 40001 None, 0) # up))))))) 8787
     = Some ''40001'' \<and>
   fst (StartEnvd scripted envd None ''img'' ''c1'' ''/proj'' False 0 2222 bothServices
      5000000000 [] (start []))
     = Return ([], [], Some (Wrap unreachable ''failed to get a free port''))"
proof -
  let ?wA = "start ((Port 40000 None, 0) # (Port 40001 None, 0) # up)"
  let ?A = "StartEnvd scripted envd None ''img'' ''c1'' ''/proj'' False 0 2222 bothServices
         5000000000 [] ?wA"
  let ?B = "StartEnvd scripted envd None ''img'' ''c1'' ''/proj'' False 0 2222 bothServices
         5000000000 [] (start [])"
  have crA: "created ?wA (snd ?A) \<noteq> []"
    unfolding StartEnvd_created_eq [OF surjective_pairing]
    by (simp add: buildSpec_def servicePort_def bothServices_def Let_def scripted_simps)
  have alA: "allocated ?wA (snd ?A) = [40000, 40001]"
    by (simp add: allocated_def start_simps scripted_simps wait_simps up_def inspected_def
        bothServices_def)
  have ports: "SSHPortInContainer envd = 2222" "JupyterPortInContainer envd = 8888"
    "RStudioServerPortInContainer envd = 8787"
    by (simp_all add: envd_def)
  have decimal: "Itoa 2222 = ''2222''" "Itoa 40000 = ''40000''" "Itoa 40001 = ''40001''"
    by (simp_all add: Itoa_def digits.simps digitChar_def)
  have 1: "hostPortOf (snd (hd (created ?wA (snd ?A)))) 2222 = Some ''2222'' \<and>
      hostPortOf (snd (hd (created ?wA (snd ?A)))) 8888 = Some ''40000'' \<and>
      hostPortOf (snd (hd (created ?wA (snd ?A)))) 8787 = Some ''40001''"
    using StartEnvd_port_bindings [OF surjective_pairing, THEN conjunct1, rule_format,
        OF hd_created [OF crA]]
    unfolding alA ports case_prod_unfold
    by (auto simp: bothServices_def decimal)
  have crB: "created (start []) (snd ?B) = []"
    unfolding StartEnvd_created_eq [OF surjective_pairing]
    by (simp add: buildSpec_def servicePort_def bothServices_def Let_def scripted_simps)
  have evB: "newEvents (start []) (snd ?B) = [EvGetFreePort 0 (Some unreachable)]"
    by (simp add: start_simps scripted_simps bothServices_def)
  have 2: "fst ?B = Return ([], [], Some (Wrap unreachable ''failed to get a free port''))"
    using StartEnvd_port_bindings [OF surjective_pairing, THEN conjunct2, rule_format,
        OF conjI [OF crB]]
    unfolding evB by (auto simp: colons_def)
  from 1 2 show ?thesis by simp
qed

text \<open>
  C6, as the specification has it, fails: the allocator gives 40000 for jupyter and
  40000 again for the RStudio server (it releases the port before it returns it). Both
  bindings get the port 40000 of the host, no error is raised, and \<open>StartEnvd\<close> succeeds.
\<close>

theorem StartEnvd_port_bindings_counterexample:
  "fst (StartEnvd scripted envd None ''img'' ''c1'' ''/proj'' False 0 2222 bothServices
      5000000000 [] (start ((Port 40000 None, 0) # (Port 40000 None, 0) # up)))
     = Return (''/c1'', ''172.17.0.2'', None) \<and>
   PortBindings (snd (hd (created (start ((Port 40000 None, 0) # (Port 40000 None, 0) # up))
      (snd (StartEnvd scripted envd None ''img'' ''c1'' ''/proj'' False 0 2222 bothServices
         5000000000 [] (start ((Port 40000 None, 0) # (Port 40000 None, 0) # up))))))) ''8888/tcp''
     = Some [\<lparr>HostIP = ''127.0.0.1'', HostPort = ''40000''\<rparr>] \<and>
   PortBindings (snd (hd (created (start ((Port 40000 None, 0) # (Port 40000 None, 0) # up))
      (snd (StartEnvd scripted envd None ''img'' ''c1'' ''/proj'' False 0 2222 bothServices
         5000000000 [] (start ((Port 40000 None, 0) # (Port 40000 None, 0) # up))))))) ''8787/tcp''
     = Some [\<lparr>HostIP = ''127.0.0.1'', HostPort = ''40000''\<rparr>]"
  by (simp add: start_simps scripted_simps wait_simps created_def up_def inspected_def
      bothServices_def)

end
